theory Spec2Isabelle
  imports Main
begin

section \<open>JavaScript values\<close>

text \<open>
  The values a form snapshot, a condition operand or form data can hold:
  \<open>undefined\<close>, \<open>null\<close>, booleans, numbers, strings, arrays and plain objects,
  and the values that a property lookup can reach from them through the prototype
  chain: functions (\<open>Fn\<close>, such as the constructor \<open>Number\<close>) and other objects
  that are not plain data (\<open>Host\<close>, such as \<open>Object.prototype\<close> or a
  \<open>Date\<close>). \<open>Num n\<close> is the number \<open>n\<close>, for the integers that are numbers
  of JavaScript, next to \<open>NaN\<close>; fractional numbers and the infinities are outside the
  model. Arrays and objects carry the identity of the object (a reference), since
  \<open>===\<close> and \<open>Array.prototype.includes\<close> compare objects by identity and not by
  content; a function and a host object are identified by a name. A plain object is the
  list of its own properties in insertion order, an array the list of its elements.
\<close>

datatype jsval =
    Undefined
  | Null
  | Bool bool
  | Num int
  | NaN
  | Str string
  | Arr nat "jsval list"
  | Obj nat "(string \<times> jsval) list"
  | Fn string
  | Host string

datatype js_error = TypeError | SyntaxError | Thrown string

text \<open>
  What belongs to the JavaScript runtime and not to the values is a parameter of the
  model:
  \<^item> the members that a plain object, an array, a string, a number and a boolean
    inherit through their prototype chain (\<open>({}).constructor\<close> is the function
    \<open>Object\<close>, \<open>(1).toFixed\<close> a method); the lookup of such a member does not
    throw;
  \<^item> the properties of a function or a host object: reading one yields a value or
    throws (the accessors \<open>caller\<close> and \<open>arguments\<close> that every function inherits
    throw a \<open>TypeError\<close> for a built-in function), and \<open>key in v\<close>;
  \<^item> the conversions between strings and numbers, \<open>Number(s)\<close> and \<open>String(n)\<close>,
    and the conversions \<open>String(v)\<close> and \<open>Number(v)\<close> of an array, an object or a
    function, which call methods of the value and can throw;
  \<^item> the call of a method that the model does not describe.
\<close>

record js_runtime =
  object_member :: "string \<Rightarrow> jsval option"
  array_member :: "string \<Rightarrow> jsval option"
  string_member :: "string \<Rightarrow> jsval option"
  number_member :: "string \<Rightarrow> jsval option"
  boolean_member :: "string \<Rightarrow> jsval option"
  host_get :: "jsval \<Rightarrow> string \<Rightarrow> js_error + jsval"
  host_has :: "jsval \<Rightarrow> string \<Rightarrow> bool"
  string_to_number :: "string \<Rightarrow> jsval"
  number_to_string :: "int \<Rightarrow> string"
  object_to_string :: "jsval \<Rightarrow> js_error + string"
  object_to_number :: "jsval \<Rightarrow> js_error + jsval"
  invoke :: "jsval \<Rightarrow> string \<Rightarrow> jsval list \<Rightarrow> js_error + jsval"

text \<open>Sequencing of two steps of which the first may throw.\<close>

definition bind_js :: "js_error + 'a \<Rightarrow> ('a \<Rightarrow> js_error + 'b) \<Rightarrow> js_error + 'b" where
  "bind_js m f = (case m of Inl e \<Rightarrow> Inl e | Inr x \<Rightarrow> f x)"

text \<open>Truthiness (\<open>ToBoolean\<close>).\<close>

fun truthy :: "jsval \<Rightarrow> bool" where
  "truthy Undefined = False"
| "truthy Null = False"
| "truthy (Bool b) = b"
| "truthy (Num n) = (n \<noteq> 0)"
| "truthy NaN = False"
| "truthy (Str s) = (s \<noteq> [])"
| "truthy (Arr r xs) = True"
| "truthy (Obj r kvs) = True"
| "truthy (Fn f) = True"
| "truthy (Host h) = True"

fun isArray :: "jsval \<Rightarrow> bool" where
  "isArray (Arr r xs) = True"
| "isArray v = False"

fun isString :: "jsval \<Rightarrow> bool" where
  "isString (Str s) = True"
| "isString v = False"

text \<open>\<open>typeof v === 'object'\<close>: arrays, plain objects, host objects and \<open>null\<close>;
  the type of a function is \<open>'function'\<close>.\<close>

fun typeof_object :: "jsval \<Rightarrow> bool" where
  "typeof_object Null = True"
| "typeof_object (Arr r xs) = True"
| "typeof_object (Obj r kvs) = True"
| "typeof_object (Host h) = True"
| "typeof_object v = False"

text \<open>The values that are not data: functions and host objects.\<close>

fun is_host :: "jsval \<Rightarrow> bool" where
  "is_host (Fn f) = True"
| "is_host (Host h) = True"
| "is_host v = False"

text \<open>Strict equality \<open>===\<close>: by value on primitives (\<open>NaN\<close> equals nothing),
  by identity on arrays, objects and functions.\<close>

fun strict_eq :: "jsval \<Rightarrow> jsval \<Rightarrow> bool" where
  "strict_eq (Arr r xs) (Arr r' ys) = (r = r')"
| "strict_eq (Obj r xs) (Obj r' ys) = (r = r')"
| "strict_eq NaN b = False"
| "strict_eq a NaN = False"
| "strict_eq a b = (a = b)"

text \<open>\<open>SameValueZero\<close>, the comparison of \<open>Array.prototype.includes\<close>: as
  \<open>===\<close>, but \<open>NaN\<close> equals \<open>NaN\<close>.\<close>

fun same_value_zero :: "jsval \<Rightarrow> jsval \<Rightarrow> bool" where
  "same_value_zero NaN NaN = True"
| "same_value_zero a b = strict_eq a b"

definition array_includes :: "jsval list \<Rightarrow> jsval \<Rightarrow> bool" where
  "array_includes xs v = list_ex (\<lambda>x. same_value_zero x v) xs"

text \<open>\<open>String.prototype.includes\<close>: the argument occurs as a substring.\<close>

fun string_includes :: "string \<Rightarrow> string \<Rightarrow> bool" where
  "string_includes [] sub = (sub = [])"
| "string_includes (c # cs) sub =
     (take (length sub) (c # cs) = sub \<or> string_includes cs sub)"

subsection \<open>Array indices\<close>

text \<open>The decimal numeral of a natural number, as in the key of an array element and
  in a path such as \<open>items[3]\<close>.\<close>

definition digit_char :: "nat \<Rightarrow> char" where
  "digit_char d = ''0123456789'' ! (d mod 10)"

fun decimal :: "nat \<Rightarrow> string" where
  "decimal n = (if n < 10 then [digit_char n] else decimal (n div 10) @ [digit_char (n mod 10)])"

declare decimal.simps [simp del]

definition digit_val :: "char \<Rightarrow> nat option" where
  "digit_val c = map_of (zip ''0123456789'' [0, 1, 2, 3, 4, 5, 6, 7, 8, 9]) c"

text \<open>The value of a non-empty string of decimal digits, read from the left with
  the value so far as accumulator.\<close>

fun digits_val :: "nat \<Rightarrow> string \<Rightarrow> nat option" where
  "digits_val acc [] = Some acc"
| "digits_val acc (c # cs) =
     (case digit_val c of None \<Rightarrow> None | Some d \<Rightarrow> digits_val (10 * acc + d) cs)"

definition parse_digits :: "string \<Rightarrow> nat option" where
  "parse_digits s = (if s = [] then None else digits_val 0 s)"

text \<open>A property key is an array index when it is the canonical decimal numeral of a
  natural number (\<open>"0"\<close>, \<open>"17"\<close>, but not \<open>"01"\<close>).\<close>

definition array_index :: "string \<Rightarrow> nat option" where
  "array_index key =
     (case parse_digits key of
        None \<Rightarrow> None
      | Some i \<Rightarrow> if decimal i = key then Some i else None)"

subsection \<open>Conversions\<close>

text \<open>\<open>String(v)\<close> and \<open>Number(v)\<close>. A primitive is converted by the language; the
  numeral of a number and the number of a numeral are the runtime's. An array, an
  object and a function are converted by their own methods: this is the runtime's, and
  it can throw. The result of \<open>Number(v)\<close> is \<open>Num n\<close> or \<open>NaN\<close>.\<close>

fun to_String :: "js_runtime \<Rightarrow> jsval \<Rightarrow> js_error + string" where
  "to_String rt Undefined = Inr ''undefined''"
| "to_String rt Null = Inr ''null''"
| "to_String rt (Bool b) = Inr (if b then ''true'' else ''false'')"
| "to_String rt (Num n) = Inr (number_to_string rt n)"
| "to_String rt NaN = Inr ''NaN''"
| "to_String rt (Str s) = Inr s"
| "to_String rt v = object_to_string rt v"

fun to_Number :: "js_runtime \<Rightarrow> jsval \<Rightarrow> js_error + jsval" where
  "to_Number rt Undefined = Inr NaN"
| "to_Number rt Null = Inr (Num 0)"
| "to_Number rt (Bool b) = Inr (if b then Num 1 else Num 0)"
| "to_Number rt (Num n) = Inr (Num n)"
| "to_Number rt NaN = Inr NaN"
| "to_Number rt (Str s) = Inr (string_to_number rt s)"
| "to_Number rt v = object_to_number rt v"

text \<open>The relational operators on two numbers; a comparison with \<open>NaN\<close> is false.\<close>

fun num_less :: "jsval \<Rightarrow> jsval \<Rightarrow> bool" where
  "num_less (Num a) (Num b) = (a < b)"
| "num_less a b = False"

fun num_less_eq :: "jsval \<Rightarrow> jsval \<Rightarrow> bool" where
  "num_less_eq (Num a) (Num b) = (a \<le> b)"
| "num_less_eq a b = False"

text \<open>\<open>Number(a) op Number(b)\<close>: the left operand is converted first.\<close>

definition compare_numbers ::
    "js_runtime \<Rightarrow> (jsval \<Rightarrow> jsval \<Rightarrow> bool) \<Rightarrow> jsval \<Rightarrow> jsval \<Rightarrow> js_error + bool" where
  "compare_numbers rt rel a b =
     bind_js (to_Number rt a) (\<lambda>x. bind_js (to_Number rt b) (\<lambda>y. Inr (rel x y)))"

subsection \<open>Property access\<close>

text \<open>The own properties of a data value: the properties of a plain object, the
  elements and the \<open>length\<close> of an array, the characters and the \<open>length\<close> of a
  string. A property can be there with the value \<open>undefined\<close>.\<close>

fun own_prop :: "jsval \<Rightarrow> string \<Rightarrow> jsval option" where
  "own_prop (Obj r kvs) key = map_of kvs key"
| "own_prop (Arr r xs) key =
     (if key = ''length'' then Some (Num (int (length xs)))
      else (case array_index key of
              None \<Rightarrow> None
            | Some i \<Rightarrow> if i < length xs then Some (xs ! i) else None))"
| "own_prop (Str s) key =
     (if key = ''length'' then Some (Num (int (length s)))
      else (case array_index key of
              None \<Rightarrow> None
            | Some i \<Rightarrow> if i < length s then Some (Str [s ! i]) else None))"
| "own_prop v key = None"

text \<open>The member that a data value inherits under a key, by the kind of the value.\<close>

fun inherited :: "js_runtime \<Rightarrow> jsval \<Rightarrow> string \<Rightarrow> jsval option" where
  "inherited rt (Obj r kvs) key = object_member rt key"
| "inherited rt (Arr r xs) key = array_member rt key"
| "inherited rt (Str s) key = string_member rt key"
| "inherited rt (Num n) key = number_member rt key"
| "inherited rt NaN key = number_member rt key"
| "inherited rt (Bool b) key = boolean_member rt key"
| "inherited rt v key = None"

text \<open>\<open>v[key]\<close> for a data value \<open>v\<close> other than \<open>undefined\<close> and \<open>null\<close>: the
  own property, else the inherited member, else \<open>undefined\<close>.\<close>

definition data_prop :: "js_runtime \<Rightarrow> jsval \<Rightarrow> string \<Rightarrow> jsval" where
  "data_prop rt v key =
     (case own_prop v key of
        Some x \<Rightarrow> x
      | None \<Rightarrow> (case inherited rt v key of Some x \<Rightarrow> x | None \<Rightarrow> Undefined))"

text \<open>\<open>v[key]\<close>. Reading a property of \<open>undefined\<close> or \<open>null\<close> throws a
  \<open>TypeError\<close>; reading a property of a function or a host object is the runtime's.\<close>

fun get_prop :: "js_runtime \<Rightarrow> jsval \<Rightarrow> string \<Rightarrow> js_error + jsval" where
  "get_prop rt Undefined key = Inl TypeError"
| "get_prop rt Null key = Inl TypeError"
| "get_prop rt (Fn f) key = host_get rt (Fn f) key"
| "get_prop rt (Host h) key = host_get rt (Host h) key"
| "get_prop rt v key = Inr (data_prop rt v key)"

text \<open>\<open>key in v\<close> for an object \<open>v\<close>: the key is an own property or is found on
  the prototype chain. (For a primitive the operator throws; no primitive reaches it
  below.)\<close>

fun has_prop :: "js_runtime \<Rightarrow> jsval \<Rightarrow> string \<Rightarrow> bool" where
  "has_prop rt (Fn f) key = host_has rt (Fn f) key"
| "has_prop rt (Host h) key = host_has rt (Host h) key"
| "has_prop rt v key =
     (case own_prop v key of
        Some x \<Rightarrow> True
      | None \<Rightarrow> (case inherited rt v key of Some x \<Rightarrow> True | None \<Rightarrow> False))"

text \<open>\<open>Array.prototype.every\<close> and \<open>some\<close> with a callback that may throw: the
  elements are visited in order, and the walk stops at the first element that decides
  the result or throws.\<close>

fun every_js :: "('a \<Rightarrow> js_error + bool) \<Rightarrow> 'a list \<Rightarrow> js_error + bool" where
  "every_js p [] = Inr True"
| "every_js p (x # xs) =
     (case p x of Inl e \<Rightarrow> Inl e | Inr b \<Rightarrow> if b then every_js p xs else Inr False)"

fun some_js :: "('a \<Rightarrow> js_error + bool) \<Rightarrow> 'a list \<Rightarrow> js_error + bool" where
  "some_js p [] = Inr False"
| "some_js p (x # xs) =
     (case p x of Inl e \<Rightarrow> Inl e | Inr b \<Rightarrow> if b then Inr True else some_js p xs)"

text \<open>\<open>Array.prototype.reduce\<close> with an initial value and a callback that may throw.\<close>

fun reduce_js :: "('a \<Rightarrow> 'b \<Rightarrow> js_error + 'a) \<Rightarrow> 'b list \<Rightarrow> 'a \<Rightarrow> js_error + 'a" where
  "reduce_js f [] acc = Inr acc"
| "reduce_js f (x # xs) acc =
     (case f acc x of Inl e \<Rightarrow> Inl e | Inr acc' \<Rightarrow> reduce_js f xs acc')"

text \<open>\<open>path.split('.')\<close>: a path with \<open>n\<close> dots has \<open>n + 1\<close> segments, some of
  them possibly empty.\<close>

fun split_dot :: "string \<Rightarrow> string list" where
  "split_dot [] = [[]]"
| "split_dot (c # cs) =
     (if c = CHR ''.'' then [] # split_dot cs
      else (case split_dot cs of [] \<Rightarrow> [[c]] | s # ss \<Rightarrow> (c # s) # ss))"

section \<open>Conditional logic (src/utils/conditionalLogic.ts)\<close>

subsection \<open>getNestedValue\<close>

text \<open>The callback of the reduction:
  \<^verbatim>\<open>current && current[key] !== undefined ? current[key] : undefined\<close>.\<close>

definition nested_step :: "js_runtime \<Rightarrow> jsval \<Rightarrow> string \<Rightarrow> js_error + jsval" where
  "nested_step rt current key =
     (if truthy current then
        (case get_prop rt current key of
           Inl e \<Rightarrow> Inl e
         | Inr v \<Rightarrow> if v \<noteq> Undefined then get_prop rt current key else Inr Undefined)
      else Inr Undefined)"

definition getNestedValue :: "js_runtime \<Rightarrow> jsval \<Rightarrow> string \<Rightarrow> js_error + jsval" where
  "getNestedValue rt obj path = reduce_js (nested_step rt) (split_dot path) obj"

subsection \<open>evaluateCondition\<close>

text \<open>A condition \<^verbatim>\<open>{field, operator, value?, values?}\<close>. An absent \<open>value\<close> reads as
  \<open>undefined\<close>; \<open>values\<close> is tested for presence by the code, so it is optional
  here. The operator is kept as the string the \<open>switch\<close> compares, since the
  \<open>default\<close> branch answers every other string.\<close>

record ConditionalLogic =
  cond_field :: string
  cond_operator :: string
  cond_value :: jsval
  cond_values :: "jsval list option"

text \<open>\<open>fieldValue === null || fieldValue === undefined || fieldValue === '' ||
  (Array.isArray(fieldValue) && fieldValue.length === 0)\<close>, and the condition of
  \<open>isNotEmpty\<close>, which the code writes out as well.\<close>

definition is_empty :: "jsval \<Rightarrow> bool" where
  "is_empty fieldValue =
     (strict_eq fieldValue Null \<or> strict_eq fieldValue Undefined
      \<or> strict_eq fieldValue (Str [])
      \<or> (case fieldValue of Arr r xs \<Rightarrow> length xs = 0 | _ \<Rightarrow> False))"

definition is_not_empty :: "jsval \<Rightarrow> bool" where
  "is_not_empty fieldValue =
     (\<not> strict_eq fieldValue Null \<and> \<not> strict_eq fieldValue Undefined
      \<and> \<not> strict_eq fieldValue (Str [])
      \<and> (case fieldValue of Arr r xs \<Rightarrow> length xs > 0 | _ \<Rightarrow> True))"

definition evaluateCondition ::
    "js_runtime \<Rightarrow> ConditionalLogic \<Rightarrow> jsval \<Rightarrow> js_error + bool" where
  "evaluateCondition rt condition formValues =
     (case getNestedValue rt formValues (cond_field condition) of
        Inl e \<Rightarrow> Inl e
      | Inr fieldValue \<Rightarrow>
          (let operator = cond_operator condition; v = cond_value condition in
           if operator = ''equals'' then Inr (strict_eq fieldValue v)
           else if operator = ''notEquals'' then Inr (\<not> strict_eq fieldValue v)
           else if operator = ''greaterThan'' then
             compare_numbers rt (\<lambda>x y. num_less y x) fieldValue v
           else if operator = ''lessThan'' then
             compare_numbers rt num_less fieldValue v
           else if operator = ''greaterThanOrEqual'' then
             compare_numbers rt (\<lambda>x y. num_less_eq y x) fieldValue v
           else if operator = ''lessThanOrEqual'' then
             compare_numbers rt num_less_eq fieldValue v
           else if operator = ''contains'' then
             (case fieldValue of
                Str s \<Rightarrow> bind_js (to_String rt v) (\<lambda>t. Inr (string_includes s t))
              | Arr r xs \<Rightarrow> Inr (array_includes xs v)
              | _ \<Rightarrow> Inr False)
           else if operator = ''notContains'' then
             (case fieldValue of
                Str s \<Rightarrow> bind_js (to_String rt v) (\<lambda>t. Inr (\<not> string_includes s t))
              | Arr r xs \<Rightarrow> Inr (\<not> array_includes xs v)
              | _ \<Rightarrow> Inr True)
           else if operator = ''in'' then
             Inr (case cond_values condition of
                    Some vs \<Rightarrow> array_includes vs fieldValue
                  | None \<Rightarrow> False)
           else if operator = ''notIn'' then
             Inr (case cond_values condition of
                    Some vs \<Rightarrow> \<not> array_includes vs fieldValue
                  | None \<Rightarrow> True)
           else if operator = ''isEmpty'' then Inr (is_empty fieldValue)
           else if operator = ''isNotEmpty'' then Inr (is_not_empty fieldValue)
           else Inr False))"

subsection \<open>evaluateComplexCondition and evaluateConditionalLogic\<close>

text \<open>\<^verbatim>\<open>{and?, or?, not?}\<close>: each key is tested for truthiness, and an array, also
  the empty one, is truthy.\<close>

record ComplexConditionalLogic =
  c_and :: "ConditionalLogic list option"
  c_or :: "ConditionalLogic list option"
  c_not :: "ConditionalLogic option"

definition evaluateComplexCondition ::
    "js_runtime \<Rightarrow> ComplexConditionalLogic \<Rightarrow> jsval \<Rightarrow> js_error + bool" where
  "evaluateComplexCondition rt condition formValues =
     (case c_and condition of
        Some subs \<Rightarrow> every_js (\<lambda>subCondition. evaluateCondition rt subCondition formValues) subs
      | None \<Rightarrow>
     (case c_or condition of
        Some subs \<Rightarrow> some_js (\<lambda>subCondition. evaluateCondition rt subCondition formValues) subs
      | None \<Rightarrow>
     (case c_not condition of
        Some sub \<Rightarrow>
          (case evaluateCondition rt sub formValues of Inl e \<Rightarrow> Inl e | Inr b \<Rightarrow> Inr (\<not> b))
      | None \<Rightarrow> Inr False)))"

text \<open>The union \<^verbatim>\<open>ConditionalLogic | ComplexConditionalLogic\<close>; the code tells the
  two apart by the presence of the key \<open>field\<close>.\<close>

datatype conditional =
    Atomic ConditionalLogic
  | Complex ComplexConditionalLogic

fun evaluateConditionalLogic :: "js_runtime \<Rightarrow> conditional \<Rightarrow> jsval \<Rightarrow> js_error + bool" where
  "evaluateConditionalLogic rt (Atomic condition) formValues =
     evaluateCondition rt condition formValues"
| "evaluateConditionalLogic rt (Complex condition) formValues =
     evaluateComplexCondition rt condition formValues"

subsection \<open>evaluateSimpleCondition\<close>

text \<open>\<open>x.includes(v)\<close> for an arbitrary \<open>x\<close>, read for truthiness: an array
  searches its elements; a string searches for \<open>String(v)\<close>, unless \<open>v\<close> is a
  host object (the method refuses a regular expression); \<open>undefined\<close> and
  \<open>null\<close> have no properties; and every other call is the runtime's (it throws
  unless the value has a method of that name).\<close>

fun call_includes :: "js_runtime \<Rightarrow> jsval \<Rightarrow> jsval \<Rightarrow> js_error + bool" where
  "call_includes rt (Arr r xs) v = Inr (array_includes xs v)"
| "call_includes rt (Str s) v =
     (if is_host v then bind_js (invoke rt (Str s) ''includes'' [v]) (\<lambda>b. Inr (truthy b))
      else bind_js (to_String rt v) (\<lambda>t. Inr (string_includes s t)))"
| "call_includes rt Undefined v = Inl TypeError"
| "call_includes rt Null v = Inl TypeError"
| "call_includes rt x v = bind_js (invoke rt x ''includes'' [v]) (\<lambda>b. Inr (truthy b))"

text \<open>The callback of \<open>every\<close> over the entries \<open>[field, expectedValue]\<close>.\<close>

definition simple_entry :: "js_runtime \<Rightarrow> jsval \<Rightarrow> string \<times> jsval \<Rightarrow> js_error + bool" where
  "simple_entry rt formValues entry =
     (case entry of (field, expectedValue) \<Rightarrow>
      (case getNestedValue rt formValues field of
         Inl e \<Rightarrow> Inl e
       | Inr fieldValue \<Rightarrow>
           (let prop = get_prop rt expectedValue in
            if typeof_object expectedValue \<and> expectedValue \<noteq> Null then
              if has_prop rt expectedValue ''$in'' then
                bind_js (prop ''$in'') (\<lambda>xs. call_includes rt xs fieldValue)
              else if has_prop rt expectedValue ''$notIn'' then
                bind_js (prop ''$notIn'')
                  (\<lambda>xs. bind_js (call_includes rt xs fieldValue) (\<lambda>b. Inr (\<not> b)))
              else if has_prop rt expectedValue ''$gt'' then
                bind_js (to_Number rt fieldValue) (\<lambda>x. bind_js (prop ''$gt'')
                  (\<lambda>bound. bind_js (to_Number rt bound) (\<lambda>y. Inr (num_less y x))))
              else if has_prop rt expectedValue ''$lt'' then
                bind_js (to_Number rt fieldValue) (\<lambda>x. bind_js (prop ''$lt'')
                  (\<lambda>bound. bind_js (to_Number rt bound) (\<lambda>y. Inr (num_less x y))))
              else if has_prop rt expectedValue ''$gte'' then
                bind_js (to_Number rt fieldValue) (\<lambda>x. bind_js (prop ''$gte'')
                  (\<lambda>bound. bind_js (to_Number rt bound) (\<lambda>y. Inr (num_less_eq y x))))
              else if has_prop rt expectedValue ''$lte'' then
                bind_js (to_Number rt fieldValue) (\<lambda>x. bind_js (prop ''$lte'')
                  (\<lambda>bound. bind_js (to_Number rt bound) (\<lambda>y. Inr (num_less_eq x y))))
              else if has_prop rt expectedValue ''$contains'' then
                bind_js (to_String rt fieldValue) (\<lambda>s. bind_js (prop ''$contains'')
                  (\<lambda>part. bind_js (to_String rt part) (\<lambda>t. Inr (string_includes s t))))
              else if has_prop rt expectedValue ''$isEmpty'' then
                bind_js (prop ''$isEmpty'')
                  (\<lambda>flag. Inr (if truthy flag then is_empty fieldValue
                                else \<not> is_empty fieldValue))
              else Inr (strict_eq fieldValue expectedValue)
            else Inr (strict_eq fieldValue expectedValue))))"

text \<open>The condition is a mapping from field path to expected value, read by
  \<open>Object.entries\<close> in insertion order.\<close>

definition evaluateSimpleCondition ::
    "js_runtime \<Rightarrow> (string \<times> jsval) list \<Rightarrow> jsval \<Rightarrow> js_error + bool" where
  "evaluateSimpleCondition rt condition formValues =
     every_js (simple_entry rt formValues) condition"

subsection \<open>shouldFieldBeVisible and shouldFieldBeDisabled\<close>

record visibility_field =
  conditional :: "conditional option"
  visibleWhen :: "(string \<times> jsval) list option"

definition shouldFieldBeVisible ::
    "js_runtime \<Rightarrow> visibility_field \<Rightarrow> jsval \<Rightarrow> js_error + bool" where
  "shouldFieldBeVisible rt field formValues =
     (case conditional field of
        Some c \<Rightarrow> evaluateConditionalLogic rt c formValues
      | None \<Rightarrow>
     (case visibleWhen field of
        Some w \<Rightarrow> evaluateSimpleCondition rt w formValues
      | None \<Rightarrow> Inr True))"

record disabling_field =
  disabledWhen :: "(string \<times> jsval) list option"
  disabled :: "bool option"

definition shouldFieldBeDisabled ::
    "js_runtime \<Rightarrow> disabling_field \<Rightarrow> jsval \<Rightarrow> js_error + bool" where
  "shouldFieldBeDisabled rt field formValues =
     (if disabled field = Some True then Inr True
      else (case disabledWhen field of
              Some w \<Rightarrow> evaluateSimpleCondition rt w formValues
            | None \<Rightarrow> Inr False))"

subsection \<open>Notions for the path resolver\<close>

text \<open>A key names nothing inherited when no kind of data value inherits a member
  under it.\<close>

definition no_inherited :: "js_runtime \<Rightarrow> string \<Rightarrow> bool" where
  "no_inherited rt key =
     (object_member rt key = None \<and> array_member rt key = None \<and> string_member rt key = None
      \<and> number_member rt key = None \<and> boolean_member rt key = None)"

text \<open>Plain data: a value without a function or a host object anywhere inside.\<close>

fun pure_data :: "jsval \<Rightarrow> bool" where
  "pure_data (Fn f) = False"
| "pure_data (Host h) = False"
| "pure_data (Arr r xs) = list_all pure_data xs"
| "pure_data (Obj r kvs) = list_all (\<lambda>kv. pure_data (snd kv)) kvs"
| "pure_data v = True"


section \<open>The yup library\<close>

text \<open>
  \<open>validation.ts\<close> builds its validators with the schema library \<open>yup\<close>
  (a dependency of the package, version 1.4). This section models what the library does
  with the schemas that \<open>validation.ts\<close> builds: casting, the built-in tests, the
  order in which tests report, \<open>abortEarly\<close>, and the shape of a
  \<open>ValidationError\<close>. What depends on the JavaScript runtime or on tables inside
  the library is a parameter of the model (\<open>yup_env\<close>): the runtime itself, the
  interpolation of \<open>${...}\<close> placeholders in a message, the text of the type-error
  message, the coercion of a value that does not have the schema's type, the test for a
  valid \<open>Date\<close>, and regular expressions.
\<close>

datatype schema_kind = KString | KNumber | KBoolean | KDate | KMixed | KArray | KObject

record yup_env =
  runtime :: js_runtime
  interpolate :: "string \<Rightarrow> (string \<times> jsval) list \<Rightarrow> string"
  not_type :: "schema_kind \<Rightarrow> (string \<times> jsval) list \<Rightarrow> string"
  coerce :: "schema_kind \<Rightarrow> jsval \<Rightarrow> jsval"
  is_date :: "jsval \<Rightarrow> bool"
  regexp :: "string \<Rightarrow> (string \<Rightarrow> bool) option"
  email_ok :: "string \<Rightarrow> bool"

text \<open>A JavaScript function, called in a runtime with its list of arguments,
  returns a value or throws. A parameter that the caller does not supply reads as
  \<open>undefined\<close>. For an \<open>async\<close> function the outcome is that of awaiting its
  promise, which is taken to settle.\<close>

datatype js_outcome = Return jsval | Throw js_error

type_synonym js_fun = "js_runtime \<Rightarrow> jsval list \<Rightarrow> js_outcome"

definition arg :: "jsval list \<Rightarrow> nat \<Rightarrow> jsval" where
  "arg args i = (if i < length args then args ! i else Undefined)"

text \<open>A test of a schema: its name, its message template, the parameters offered to
  the template, whether it skips \<open>null\<close> and \<open>undefined\<close>, whether its function
  returns a promise, and the function, whose result is read for truthiness.\<close>

record yup_test =
  t_name :: string
  t_message :: string
  t_params :: "(string \<times> jsval) list"
  t_skipAbsent :: bool
  t_async :: bool
  t_fn :: "jsval \<Rightarrow> js_error + bool"

text \<open>A schema without children: its type, whether \<open>undefined\<close> is accepted and the
  message when it is not, the message for \<open>null\<close> (no schema here is nullable), and
  its tests in the order they were added.\<close>

record yup_spec =
  s_kind :: schema_kind
  s_optional :: bool
  s_optional_message :: string
  s_nullable_message :: string
  s_tests :: "yup_test list"

datatype yup_schema =
    Leaf yup_spec
  | ArrayOf yup_spec yup_schema
  | Shape yup_spec "(string \<times> yup_schema) list"

text \<open>The library's default messages for \<open>undefined\<close> and \<open>null\<close>
  (\<open>mixed.defined\<close>, \<open>mixed.notNull\<close>).\<close>

definition locale_defined :: string where
  "locale_defined = ''${path} must be defined''"

definition locale_notNull :: string where
  "locale_notNull = ''${path} cannot be null''"

definition new_schema :: "schema_kind \<Rightarrow> yup_spec" where
  "new_schema k = \<lparr>s_kind = k, s_optional = True, s_optional_message = locale_defined,
                    s_nullable_message = locale_notNull, s_tests = []\<rparr>"

text \<open>\<open>schema.test(...)\<close>: the test is added last, in place of an earlier
  exclusive test of its name (no schema built below adds two tests of one name).\<close>

definition add_test :: "yup_test \<Rightarrow> yup_spec \<Rightarrow> yup_spec" where
  "add_test t sp = sp\<lparr>s_tests := filter (\<lambda>u. t_name u \<noteq> t_name t) (s_tests sp) @ [t]\<rparr>"

text \<open>The built-in tests that \<open>validation.ts\<close> adds. A test runs on a value
  that has passed the type check of its schema. \<open>value.length\<close> is read with the
  general property access; the bounds of a number schema compare two numbers.\<close>

definition length_of :: "js_runtime \<Rightarrow> jsval \<Rightarrow> js_error + jsval" where
  "length_of rt v = get_prop rt v ''length''"

definition length_min_test :: "js_runtime \<Rightarrow> int \<Rightarrow> string \<Rightarrow> yup_test" where
  "length_min_test rt n message =
     \<lparr>t_name = ''min'', t_message = message, t_params = [(''min'', Num n)],
      t_skipAbsent = True, t_async = False,
      t_fn = (\<lambda>v. bind_js (length_of rt v) (\<lambda>l. Inr (num_less_eq (Num n) l)))\<rparr>"

definition length_max_test :: "js_runtime \<Rightarrow> int \<Rightarrow> string \<Rightarrow> yup_test" where
  "length_max_test rt n message =
     \<lparr>t_name = ''max'', t_message = message, t_params = [(''max'', Num n)],
      t_skipAbsent = True, t_async = False,
      t_fn = (\<lambda>v. bind_js (length_of rt v) (\<lambda>l. Inr (num_less_eq l (Num n))))\<rparr>"

definition number_min_test :: "int \<Rightarrow> string \<Rightarrow> yup_test" where
  "number_min_test n message =
     \<lparr>t_name = ''min'', t_message = message, t_params = [(''min'', Num n)],
      t_skipAbsent = True, t_async = False,
      t_fn = (\<lambda>v. Inr (num_less_eq (Num n) v))\<rparr>"

definition number_max_test :: "int \<Rightarrow> string \<Rightarrow> yup_test" where
  "number_max_test n message =
     \<lparr>t_name = ''max'', t_message = message, t_params = [(''max'', Num n)],
      t_skipAbsent = True, t_async = False,
      t_fn = (\<lambda>v. Inr (num_less_eq v (Num n)))\<rparr>"

text \<open>\<open>string.matches(regex, message)\<close> with the compiled expression, and
  \<open>string.email(message)\<close>, which accepts the empty string. Both search the value,
  a string.\<close>

definition matches_test :: "(string \<Rightarrow> bool) \<Rightarrow> string \<Rightarrow> string \<Rightarrow> yup_test" where
  "matches_test found pattern message =
     \<lparr>t_name = ''matches'', t_message = message, t_params = [(''regex'', Str pattern)],
      t_skipAbsent = True, t_async = False,
      t_fn = (\<lambda>v. case v of Str s \<Rightarrow> Inr (found s) | _ \<Rightarrow> Inl TypeError)\<rparr>"

definition email_test :: "yup_env \<Rightarrow> string \<Rightarrow> yup_test" where
  "email_test env message =
     \<lparr>t_name = ''email'', t_message = message, t_params = [],
      t_skipAbsent = True, t_async = False,
      t_fn = (\<lambda>v. case v of Str s \<Rightarrow> Inr (s = [] \<or> email_ok env s) | _ \<Rightarrow> Inl TypeError)\<rparr>"

text \<open>\<open>schema.required(message)\<close>: \<open>undefined\<close> and \<open>null\<close> are refused with
  the message; a string schema also refuses the empty string, by a test named
  \<open>required\<close> that reads \<open>value.length\<close> for truthiness.\<close>

definition string_required_test :: "js_runtime \<Rightarrow> string \<Rightarrow> yup_test" where
  "string_required_test rt message =
     \<lparr>t_name = ''required'', t_message = message, t_params = [],
      t_skipAbsent = True, t_async = False,
      t_fn = (\<lambda>v. bind_js (length_of rt v) (\<lambda>l. Inr (truthy l)))\<rparr>"

definition yup_required :: "js_runtime \<Rightarrow> string \<Rightarrow> yup_spec \<Rightarrow> yup_spec" where
  "yup_required rt message sp =
     (let sp' = sp\<lparr>s_optional := False, s_optional_message := message,
                    s_nullable_message := message\<rparr>
      in if s_kind sp = KString then add_test (string_required_test rt message) sp' else sp')"

subsection \<open>Casting\<close>

text \<open>The type check of a schema. An object schema accepts a plain object; the
  library also accepts a function and a host object of the class \<open>Object\<close>, which
  form data does not hold.\<close>

definition is_type :: "yup_env \<Rightarrow> schema_kind \<Rightarrow> jsval \<Rightarrow> bool" where
  "is_type env k v =
     (case k of
        KString \<Rightarrow> isString v
      | KNumber \<Rightarrow> (case v of Num n \<Rightarrow> True | _ \<Rightarrow> False)
      | KBoolean \<Rightarrow> (case v of Bool b \<Rightarrow> True | _ \<Rightarrow> False)
      | KDate \<Rightarrow> is_date env v
      | KMixed \<Rightarrow> True
      | KArray \<Rightarrow> isArray v
      | KObject \<Rightarrow> (case v of Obj r kvs \<Rightarrow> True | _ \<Rightarrow> False))"

text \<open>The cast of one value by a schema's own transform: \<open>undefined\<close> stays (no
  schema here has a default), a value of the schema's type stays, and any other value
  is coerced.\<close>

definition cast_value :: "yup_env \<Rightarrow> schema_kind \<Rightarrow> jsval \<Rightarrow> jsval" where
  "cast_value env k v =
     (if v = Undefined \<or> v = Null then v
      else if is_type env k v then v
      else coerce env k v)"

text \<open>The default of a schema: none for a schema without children and for an array
  schema; an object schema with fields invents the object of its fields' defaults, and
  each field is an own property of it, also when its default is \<open>undefined\<close>.\<close>

fun default_value :: "yup_schema \<Rightarrow> jsval" where
  "default_value (Leaf sp) = Undefined"
| "default_value (ArrayOf sp inner) = Undefined"
| "default_value (Shape sp flds) =
     (if flds = [] then Undefined else Obj 0 (map (\<lambda>(k, s). (k, default_value s)) flds))"

text \<open>The cast of a value by a schema with children. An array schema casts its
  elements. An object schema reads the property of every field with \<open>value[key]\<close>,
  casts it, leaves out a field whose cast is \<open>undefined\<close>, and keeps the own
  properties it has no field for; for \<open>undefined\<close> it answers its default.\<close>

fun cast_schema :: "yup_env \<Rightarrow> yup_schema \<Rightarrow> jsval \<Rightarrow> jsval" where
  "cast_schema env (Leaf sp) v = cast_value env (s_kind sp) v"
| "cast_schema env (ArrayOf sp inner) v =
     (case cast_value env (s_kind sp) v of
        Arr r xs \<Rightarrow> Arr r (map (cast_schema env inner) xs)
      | w \<Rightarrow> w)"
| "cast_schema env (Shape sp flds) v =
     (case cast_value env (s_kind sp) v of
        Undefined \<Rightarrow> default_value (Shape sp flds)
      | Obj r kvs \<Rightarrow>
          Obj r (filter (\<lambda>kv. snd kv \<noteq> Undefined)
                   (map (\<lambda>(k, s). (k, cast_schema env s (data_prop (runtime env) (Obj r kvs) k)))
                      flds)
                 @ filter (\<lambda>kv. fst kv \<notin> fst ` set flds) kvs)
      | w \<Rightarrow> w)"

text \<open>While it casts an object, the library looks every own key of the value up in
  its table of fields, \<open>fields[key]\<close>. The table is an ordinary object, so a key for
  which the schema has no field, and which names a member that objects inherit, finds
  that member instead of a field, and the cast throws a \<open>TypeError\<close> when it uses
  the member as a schema. The model reports the exception where the object is visited.
  (A schema fresh from \<open>yup.object()\<close> has a table without a prototype until it is
  first modified; the model does not make the difference.)\<close>

definition extra_key_panics :: "yup_env \<Rightarrow> string list \<Rightarrow> jsval \<Rightarrow> js_error list" where
  "extra_key_panics env keys v =
     (case v of
        Obj r kvs \<Rightarrow>
          concat (map (\<lambda>kv. if fst kv \<notin> set keys
                               \<and> (case object_member (runtime env) (fst kv) of
                                     Some m \<Rightarrow> truthy m
                                   | None \<Rightarrow> False)
                             then [TypeError] else [])
                    kvs)
      | _ \<Rightarrow> [])"

subsection \<open>Running the tests\<close>

text \<open>A failed test is reported as a \<open>ValidationError\<close> with the path of the value,
  the formatted message and the name of the test. A test function that throws
  anything else makes the whole validation reject with what was thrown.\<close>

record leaf_error =
  le_path :: string
  le_message :: string
  le_type :: string

datatype event = EFail leaf_error | EPanic js_error

text \<open>\<open>ValidationError.formatError\<close>: a message without a placeholder is the
  message itself.\<close>

definition format_message :: "yup_env \<Rightarrow> string \<Rightarrow> (string \<times> jsval) list \<Rightarrow> string" where
  "format_message env m params = (if string_includes m ''${'' then interpolate env m params else m)"

definition message_params ::
    "string \<Rightarrow> jsval \<Rightarrow> jsval \<Rightarrow> (string \<times> jsval) list \<Rightarrow> (string \<times> jsval) list" where
  "message_params path v ov ps =
     [(''path'', Str (if path = [] then ''this'' else path)), (''value'', v),
      (''originalValue'', ov)] @ ps"

definition absent :: "jsval \<Rightarrow> bool" where
  "absent v = (v = Undefined \<or> v = Null)"

definition run_test :: "yup_env \<Rightarrow> string \<Rightarrow> jsval \<Rightarrow> jsval \<Rightarrow> yup_test \<Rightarrow> event list" where
  "run_test env path v ov t =
     (if t_skipAbsent t \<and> absent v then []
      else (case t_fn t v of
              Inl e \<Rightarrow> [EPanic e]
            | Inr ok \<Rightarrow>
                if ok then []
                else [EFail \<lparr>le_path = path,
                             le_message = format_message env (t_message t)
                                            (message_params path v ov (t_params t)),
                             le_type = t_name t\<rparr>]))"

text \<open>The tests every schema runs first, in this order: the type check (skipped for
  \<open>null\<close> and \<open>undefined\<close>), \<open>null\<close>, and \<open>undefined\<close>.\<close>

definition initial_events ::
    "yup_env \<Rightarrow> yup_spec \<Rightarrow> string \<Rightarrow> jsval \<Rightarrow> jsval \<Rightarrow> event list" where
  "initial_events env sp path v ov =
     (if \<not> absent v \<and> \<not> is_type env (s_kind sp) v then
        [EFail \<lparr>le_path = path,
                le_message = not_type env (s_kind sp) (message_params path v ov []),
                le_type = ''typeError''\<rparr>]
      else [])
     @ (if v = Null then
          [EFail \<lparr>le_path = path,
                  le_message = format_message env (s_nullable_message sp)
                                 (message_params path v ov []),
                  le_type = ''nullable''\<rparr>]
        else [])
     @ (if v = Undefined \<and> \<not> s_optional sp then
          [EFail \<lparr>le_path = path,
                  le_message = format_message env (s_optional_message sp)
                                 (message_params path v ov []),
                  le_type = ''optionality''\<rparr>]
        else [])"

text \<open>What the tests of one schema report, in the order in which it arrives: when an
  initial test fails, the others are not run; otherwise the synchronous tests report in
  the order they were added, and the tests that return a promise after them.\<close>

definition spec_events ::
    "yup_env \<Rightarrow> yup_spec \<Rightarrow> string \<Rightarrow> jsval \<Rightarrow> jsval \<Rightarrow> event list" where
  "spec_events env sp path v ov =
     (let init = initial_events env sp path v ov in
      if init \<noteq> [] then init
      else concat (map (run_test env path v ov) (filter (\<lambda>t. \<not> t_async t) (s_tests sp)))
           @ concat (map (run_test env path v ov) (filter t_async (s_tests sp))))"

text \<open>What a schema without children reports: the exception of the cast of an object
  schema, if any, and the reports of its tests.\<close>

definition leaf_events ::
    "yup_env \<Rightarrow> yup_spec \<Rightarrow> string \<Rightarrow> jsval \<Rightarrow> jsval \<Rightarrow> event list" where
  "leaf_events env sp path v ov =
     (if s_kind sp = KObject then map EPanic (extra_key_panics env [] v) else [])
     @ spec_events env sp path v ov"

record ValidationError =
  ve_message :: string
  ve_path :: string
  ve_inner :: "leaf_error list"

datatype validate_result =
    Resolved jsval
  | RejectedValidation ValidationError
  | Rejected js_error

text \<open>\<open>schema.validate(value)\<close> for a schema without children, with the default
  \<open>abortEarly: true\<close>: the promise rejects with the first report.\<close>

definition validate_abortEarly :: "yup_env \<Rightarrow> yup_spec \<Rightarrow> jsval \<Rightarrow> validate_result" where
  "validate_abortEarly env sp value =
     (let v = cast_value env (s_kind sp) value in
      case leaf_events env sp [] v value of
        [] \<Rightarrow> Resolved v
      | EFail e # rest \<Rightarrow>
          RejectedValidation \<lparr>ve_message = le_message e, ve_path = le_path e, ve_inner = []\<rparr>
      | EPanic e # rest \<Rightarrow> Rejected e)"

text \<open>The path of a child: \<open>parent.key\<close>, \<open>parent["key"]\<close> for a key with a
  dot, \<open>parent[index]\<close> for an array element.\<close>

definition child_path :: "string \<Rightarrow> string \<Rightarrow> string" where
  "child_path parent key =
     (if CHR ''.'' \<in> set key then parent @ ''[\"'' @ key @ ''\"]''
      else if parent = [] then key else parent @ ''.'' @ key)"

definition index_path :: "string \<Rightarrow> nat \<Rightarrow> string" where
  "index_path parent i = parent @ ''['' @ decimal i @ '']''"

text \<open>What a schema with children reports for an already cast value (the children
  are validated with \<open>strict: true\<close>): the reports of the children, element by
  element or field by field, and then the schema's own. The children are visited only
  when the value is an array, respectively an object. A child is validated on
  \<open>parent[key]\<close>; the original value it passes on to its messages is
  \<open>originalParent[key]\<close>, where the original parent of an object is the original
  value if that is truthy, and else the value, and the original parent of an array is
  the original value unless that is \<open>null\<close> or \<open>undefined\<close>. The library sorts the
  reports of an object's fields by field and keeps the order of the reports of one
  field; the fields are taken in the order of the shape here.\<close>

fun schema_events ::
    "yup_env \<Rightarrow> yup_schema \<Rightarrow> string \<Rightarrow> jsval \<Rightarrow> jsval \<Rightarrow> event list" where
  "schema_events env (Leaf sp) path v ov = leaf_events env sp path v ov"
| "schema_events env (ArrayOf sp inner) path v ov =
     (case v of
        Arr r xs \<Rightarrow>
          concat (map (\<lambda>i. case get_prop (runtime env)
                                   (if ov = Undefined \<or> ov = Null then v else ov) (decimal i) of
                              Inl e \<Rightarrow> [EPanic e]
                            | Inr original \<Rightarrow>
                                schema_events env inner (index_path path i) (xs ! i) original)
                    [0..<length xs])
          @ spec_events env sp path v ov
      | _ \<Rightarrow> spec_events env sp path v ov)"
| "schema_events env (Shape sp flds) path v ov =
     (case v of
        Obj r kvs \<Rightarrow>
          concat (map (\<lambda>(k, s). case get_prop (runtime env) (if truthy ov then ov else v) k of
                                   Inl e \<Rightarrow> [EPanic e]
                                 | Inr original \<Rightarrow>
                                     schema_events env s (child_path path k)
                                       (data_prop (runtime env) v k) original)
                    flds)
          @ map EPanic (extra_key_panics env (map fst flds) v)
          @ spec_events env sp path v ov
      | _ \<Rightarrow> spec_events env sp path v ov)"

fun first_panic :: "event list \<Rightarrow> js_error option" where
  "first_panic [] = None"
| "first_panic (EPanic e # es) = Some e"
| "first_panic (EFail e # es) = first_panic es"

fun failures :: "event list \<Rightarrow> leaf_error list" where
  "failures [] = []"
| "failures (EFail e # es) = e # failures es"
| "failures (EPanic e # es) = failures es"

text \<open>\<open>schema.validate(value, {abortEarly: false})\<close>: the value is cast, every test
  runs, and the promise rejects with one \<open>ValidationError\<close> whose \<open>inner\<close> lists
  all failures, unless the cast or a test function threw, in which case it rejects with
  what was thrown.\<close>

definition validate_all :: "yup_env \<Rightarrow> yup_schema \<Rightarrow> jsval \<Rightarrow> validate_result" where
  "validate_all env schema value =
     (let v = cast_schema env schema value;
          evs = schema_events env schema [] v value
      in case first_panic evs of
           Some e \<Rightarrow> Rejected e
         | None \<Rightarrow>
             (let errs = failures evs in
              if errs = [] then Resolved v
              else RejectedValidation
                     \<lparr>ve_message = (if length errs > 1 then decimal (length errs) @ '' errors occurred''
                                     else le_message (hd errs)),
                      ve_path = [], ve_inner = errs\<rparr>))"

section \<open>Validation (utils/validation.ts)\<close>

subsection \<open>Rules, messages and fields (types/schema.ts)\<close>

text \<open>
  \<open>required\<close> is declared \<open>boolean\<close>, and the code only tests it for
  truthiness. A schema written in plain JavaScript can hold a function there, as the
  package's advanced example does, so the model admits both; a function is truthy.
\<close>

datatype required_value = ReqBool bool | ReqFun js_fun

fun required_truthy :: "required_value option \<Rightarrow> bool" where
  "required_truthy None = False"
| "required_truthy (Some (ReqBool b)) = b"
| "required_truthy (Some (ReqFun f)) = True"

record ValidationRules =
  rule_required :: "required_value option"
  rule_minLength :: "int option"
  rule_maxLength :: "int option"
  rule_min :: "int option"
  rule_max :: "int option"
  rule_pattern :: "string option"
  rule_email :: "bool option"
  rule_minItems :: "int option"
  rule_maxItems :: "int option"
  rule_custom :: "js_fun option"

type_synonym ValidationMessages = "string \<Rightarrow> string option"

text \<open>A field descriptor, and also a field group (\<open>type: 'group'\<close>, with
  \<open>fields\<close>). \<open>fields\<close> are the sub-fields of an object field or of a group,
  \<open>itemSchema\<close> the fields of the form schema nested in an array field; both are
  empty where the type has none.\<close>

datatype FormField =
  FormField (field_name: string) (field_type: string)
    (field_required: "required_value option")
    (field_validation: "ValidationRules option")
    (field_validationMessages: "ValidationMessages option")
    (field_fields: "FormField list")
    (field_itemSchema: "FormField list")

record FormSchema =
  schema_fields :: "FormField list"

subsection \<open>getValidationMessage\<close>

definition DEFAULT_VALIDATION_MESSAGES :: "string \<Rightarrow> string option" where
  "DEFAULT_VALIDATION_MESSAGES =
     map_of [(''required'', ''This field is required''),
             (''minLength'', ''Must be at least ${min} characters''),
             (''maxLength'', ''Must be no more than ${max} characters''),
             (''min'', ''Must be at least ${min}''),
             (''max'', ''Must be no more than ${max}''),
             (''pattern'', ''Invalid format''),
             (''email'', ''Must be a valid email address''),
             (''custom'', ''Invalid value''),
             (''minItems'', ''Must have at least ${min} items''),
             (''maxItems'', ''Must have no more than ${max} items'')]"

text \<open>\<open>messages?.[key]\<close>, and \<open>a || b\<close> on optional strings: the empty string
  is falsy, like \<open>undefined\<close>.\<close>

definition message_at :: "ValidationMessages option \<Rightarrow> string \<Rightarrow> string option" where
  "message_at messages key = (case messages of None \<Rightarrow> None | Some m \<Rightarrow> m key)"

definition js_or :: "string option \<Rightarrow> string option \<Rightarrow> string option" where
  "js_or a b = (case a of None \<Rightarrow> b | Some m \<Rightarrow> if m = [] then b else a)"

definition getValidationMessage ::
    "string \<Rightarrow> ValidationMessages option \<Rightarrow> ValidationMessages option \<Rightarrow> string" where
  "getValidationMessage key fieldMessages globalMessages =
     (let message = js_or (message_at fieldMessages key)
                      (js_or (message_at globalMessages key) (DEFAULT_VALIDATION_MESSAGES key))
      in case js_or message None of
           Some m \<Rightarrow> m
         | None \<Rightarrow> ''Validation failed for '' @ key)"

subsection \<open>applyValidationRules\<close>

text \<open>The test function given to \<open>schema.test('custom', message, ...)\<close>:
  \<^verbatim>\<open>async function(value) { const result = await rules.custom!(value);
    return typeof result === 'boolean' ? result : false; }\<close>\<close>

definition custom_test :: "js_runtime \<Rightarrow> js_fun \<Rightarrow> string \<Rightarrow> yup_test" where
  "custom_test rt custom message =
     \<lparr>t_name = ''custom'', t_message = message, t_params = [],
      t_skipAbsent = False, t_async = True,
      t_fn = (\<lambda>value. case custom rt [value] of
                         Throw e \<Rightarrow> Inl e
                       | Return result \<Rightarrow> Inr (case result of Bool b \<Rightarrow> b | _ \<Rightarrow> False))\<rparr>"

text \<open>The string rules. \<open>new RegExp(rules.pattern)\<close> throws a \<open>SyntaxError\<close> on
  a pattern that is not a regular expression.\<close>

definition string_rules ::
    "yup_env \<Rightarrow> yup_spec \<Rightarrow> ValidationRules \<Rightarrow> ValidationMessages option \<Rightarrow> js_error + yup_spec" where
  "string_rules env schema rules messages =
     (let s1 = (case rule_minLength rules of
                  Some n \<Rightarrow> add_test (length_min_test (runtime env) n
                              (getValidationMessage ''minLength'' messages None)) schema
                | None \<Rightarrow> schema);
          s2 = (case rule_maxLength rules of
                  Some n \<Rightarrow> add_test (length_max_test (runtime env) n
                              (getValidationMessage ''maxLength'' messages None)) s1
                | None \<Rightarrow> s1);
          s4 = (\<lambda>s3. if rule_email rules = Some True
                      then add_test (email_test env (getValidationMessage ''email'' messages None)) s3
                      else s3)
      in case rule_pattern rules of
           None \<Rightarrow> Inr (s4 s2)
         | Some p \<Rightarrow>
             if p = [] then Inr (s4 s2)
             else (case regexp env p of
                     None \<Rightarrow> Inl SyntaxError
                   | Some found \<Rightarrow>
                       Inr (s4 (add_test (matches_test found p
                                  (getValidationMessage ''pattern'' messages None)) s2))))"

definition number_rules ::
    "yup_spec \<Rightarrow> ValidationRules \<Rightarrow> ValidationMessages option \<Rightarrow> yup_spec" where
  "number_rules schema rules messages =
     (let s1 = (case rule_min rules of
                  Some n \<Rightarrow> add_test (number_min_test n (getValidationMessage ''min'' messages None)) schema
                | None \<Rightarrow> schema)
      in case rule_max rules of
           Some n \<Rightarrow> add_test (number_max_test n (getValidationMessage ''max'' messages None)) s1
         | None \<Rightarrow> s1)"

definition array_rules ::
    "yup_env \<Rightarrow> yup_spec \<Rightarrow> ValidationRules \<Rightarrow> ValidationMessages option \<Rightarrow> yup_spec" where
  "array_rules env schema rules messages =
     (let s1 = (case rule_minItems rules of
                  Some n \<Rightarrow> add_test (length_min_test (runtime env) n
                              (getValidationMessage ''minItems'' messages None)) schema
                | None \<Rightarrow> schema)
      in case rule_maxItems rules of
           Some n \<Rightarrow> add_test (length_max_test (runtime env) n
                         (getValidationMessage ''maxItems'' messages None)) s1
         | None \<Rightarrow> s1)"

definition applyValidationRules ::
    "yup_env \<Rightarrow> yup_spec \<Rightarrow> ValidationRules \<Rightarrow> ValidationMessages option \<Rightarrow> js_error + yup_spec" where
  "applyValidationRules env schema rules messages =
     (case (if s_kind schema = KString then string_rules env schema rules messages
            else Inr schema) of
        Inl e \<Rightarrow> Inl e
      | Inr s1 \<Rightarrow>
          (let s2 = (if s_kind s1 = KNumber then number_rules s1 rules messages else s1);
               s3 = (if s_kind s2 = KArray then array_rules env s2 rules messages else s2)
           in case rule_custom rules of
                Some custom \<Rightarrow>
                  Inr (add_test (custom_test (runtime env) custom
                                   (getValidationMessage ''custom'' messages None)) s3)
              | None \<Rightarrow> Inr s3))"

subsection \<open>createFieldValidationSchema\<close>

definition base_schema :: "string \<Rightarrow> yup_spec" where
  "base_schema type =
     (if type \<in> {''text'', ''email'', ''password'', ''url'', ''tel'', ''textarea''} then new_schema KString
      else if type = ''number'' then new_schema KNumber
      else if type = ''checkbox'' then new_schema KBoolean
      else if type \<in> {''date'', ''datetime-local'', ''time''} then new_schema KDate
      else if type \<in> {''select'', ''radio''} then new_schema KMixed
      else if type = ''file'' then new_schema KMixed
      else if type = ''array'' then new_schema KArray
      else if type = ''object'' then new_schema KObject
      else new_schema KMixed)"

text \<open>\<open>field.validationMessages || customMessages\<close>: an object, also one without
  keys, is truthy.\<close>

definition messages_or ::
    "ValidationMessages option \<Rightarrow> ValidationMessages option \<Rightarrow> ValidationMessages option" where
  "messages_or a b = (case a of Some m \<Rightarrow> Some m | None \<Rightarrow> b)"

definition validation_required :: "FormField \<Rightarrow> required_value option" where
  "validation_required field =
     (case field_validation field of None \<Rightarrow> None | Some rules \<Rightarrow> rule_required rules)"

definition createFieldValidationSchema ::
    "yup_env \<Rightarrow> FormField \<Rightarrow> ValidationMessages option \<Rightarrow> js_error + yup_spec" where
  "createFieldValidationSchema env field customMessages =
     (case (case field_validation field of
              Some rules \<Rightarrow>
                applyValidationRules env (base_schema (field_type field)) rules
                  (messages_or (field_validationMessages field) customMessages)
            | None \<Rightarrow> Inr (base_schema (field_type field))) of
        Inl e \<Rightarrow> Inl e
      | Inr schema \<Rightarrow>
          if required_truthy (field_required field) \<or> required_truthy (validation_required field)
          then Inr (yup_required (runtime env)
                      (getValidationMessage ''required'' (field_validationMessages field) customMessages)
                      schema)
          else Inr schema)"

subsection \<open>createFormValidationSchema\<close>

text \<open>\<open>shape[name] = schema\<close>: a key that is already there keeps its place and gets
  the new schema.\<close>

fun shape_put :: "(string \<times> 'a) list \<Rightarrow> string \<Rightarrow> 'a \<Rightarrow> (string \<times> 'a) list" where
  "shape_put [] k v = [(k, v)]"
| "shape_put ((k', v') # kvs) k v =
     (if k' = k then (k, v) # kvs else (k', v') # shape_put kvs k v)"

text \<open>The shape of an object field: every sub-field compiled as a plain field.\<close>

fun object_shape ::
    "yup_env \<Rightarrow> ValidationMessages option \<Rightarrow> FormField list \<Rightarrow> (string \<times> yup_schema) list
      \<Rightarrow> js_error + (string \<times> yup_schema) list" where
  "object_shape env customMessages [] shape = Inr shape"
| "object_shape env customMessages (subField # rest) shape =
     (case createFieldValidationSchema env subField customMessages of
        Inl e \<Rightarrow> Inl e
      | Inr s \<Rightarrow> object_shape env customMessages rest (shape_put shape (field_name subField) (Leaf s)))"

text \<open>\<open>processFields\<close> walks a list of fields and groups and fills the shape. The shape
  of a nested form schema (an array field's \<open>itemSchema\<close>) is built by the same walk
  from the empty shape, which is what the recursive call of
  \<open>createFormValidationSchema\<close> does.\<close>

fun processField ::
    "yup_env \<Rightarrow> ValidationMessages option \<Rightarrow> FormField \<Rightarrow> (string \<times> yup_schema) list
      \<Rightarrow> js_error + (string \<times> yup_schema) list"
and processFields ::
    "yup_env \<Rightarrow> ValidationMessages option \<Rightarrow> FormField list \<Rightarrow> (string \<times> yup_schema) list
      \<Rightarrow> js_error + (string \<times> yup_schema) list" where
  "processField env customMessages (FormField name type req val msgs flds item) shape =
     (if type = ''group'' then processFields env customMessages flds shape
      else if type = ''array'' then
        (case processFields env customMessages item [] of
           Inl e \<Rightarrow> Inl e
         | Inr itemShape \<Rightarrow>
             Inr (shape_put shape name
                    (ArrayOf (new_schema KArray) (Shape (new_schema KObject) itemShape))))
      else if type = ''object'' then
        (case object_shape env customMessages flds [] of
           Inl e \<Rightarrow> Inl e
         | Inr objectShape \<Rightarrow> Inr (shape_put shape name (Shape (new_schema KObject) objectShape)))
      else
        (case createFieldValidationSchema env (FormField name type req val msgs flds item)
                customMessages of
           Inl e \<Rightarrow> Inl e
         | Inr s \<Rightarrow> Inr (shape_put shape name (Leaf s))))"
| "processFields env customMessages [] shape = Inr shape"
| "processFields env customMessages (field # rest) shape =
     (case processField env customMessages field shape of
        Inl e \<Rightarrow> Inl e
      | Inr shape' \<Rightarrow> processFields env customMessages rest shape')"

definition createFormValidationSchema ::
    "yup_env \<Rightarrow> FormSchema \<Rightarrow> ValidationMessages option \<Rightarrow> js_error + yup_schema" where
  "createFormValidationSchema env schema customMessages =
     (case processFields env customMessages (schema_fields schema) [] of
        Inl e \<Rightarrow> Inl e
      | Inr shape \<Rightarrow> Inr (Shape (new_schema KObject) shape))"

subsection \<open>validateFieldValue and validateFormData\<close>

text \<open>The promise of \<open>validateFieldValue\<close> resolves to \<open>null\<close> (\<open>None\<close>) or to a
  message. Compiling the field happens inside the \<open>try\<close>.\<close>

definition validateFieldValue ::
    "yup_env \<Rightarrow> string \<Rightarrow> jsval \<Rightarrow> FormField \<Rightarrow> ValidationMessages option \<Rightarrow> string option" where
  "validateFieldValue env fieldName v field customMessages =
     (case createFieldValidationSchema env field customMessages of
        Inl e \<Rightarrow> Some ''Validation error''
      | Inr fieldSchema \<Rightarrow>
          (case validate_abortEarly env fieldSchema v of
             Resolved w \<Rightarrow> None
           | RejectedValidation error \<Rightarrow> Some (ve_message error)
           | Rejected e \<Rightarrow> Some ''Validation error''))"

text \<open>\<^verbatim>\<open>error.inner.forEach(err => { if (err.path) errors[err.path] = err.message })\<close>\<close>

definition collect_errors :: "leaf_error list \<Rightarrow> (string \<rightharpoonup> string)" where
  "collect_errors inner =
     foldl (\<lambda>errors err. if le_path err \<noteq> [] then errors(le_path err \<mapsto> le_message err) else errors)
       Map.empty inner"

definition validateFormData ::
    "yup_env \<Rightarrow> jsval \<Rightarrow> FormSchema \<Rightarrow> ValidationMessages option \<Rightarrow> (string \<rightharpoonup> string)" where
  "validateFormData env data schema customMessages =
     (case createFormValidationSchema env schema customMessages of
        Inl e \<Rightarrow> Map.empty
      | Inr validationSchema \<Rightarrow>
          (case validate_all env validationSchema data of
             Resolved w \<Rightarrow> Map.empty
           | RejectedValidation error \<Rightarrow> collect_errors (ve_inner error)
           | Rejected e \<Rightarrow> Map.empty))"


section \<open>Notions used in the statements\<close>













section \<open>Inputs of the scenarios\<close>

text \<open>The rule set \<open>{}\<close>, and a field with nothing but a name and a type.\<close>

definition no_rules :: ValidationRules where
  "no_rules = \<lparr>rule_required = None, rule_minLength = None, rule_maxLength = None,
     rule_min = None, rule_max = None, rule_pattern = None, rule_email = None,
     rule_minItems = None, rule_maxItems = None, rule_custom = None\<rparr>"

definition plain_field :: "string \<Rightarrow> string \<Rightarrow> FormField" where
  "plain_field name type = FormField name type None None None [] []"

text \<open>The cross-field rule of the specification's scenario,
  \<^verbatim>\<open>(end, all) => end > all.start || "must be after start"\<close>,
  on a number field \<open>end\<close>. (The comparison is that of two numbers; for two strings
  \<open>></\<close> compares the strings, which the model of this rule leaves aside.)\<close>

definition cross_field_rule :: js_fun where
  "cross_field_rule rt args =
     (case get_prop rt (arg args 1) ''start'' of
        Inl e \<Rightarrow> Throw e
      | Inr start \<Rightarrow>
          (case compare_numbers rt (\<lambda>x y. num_less y x) (arg args 0) start of
             Inl e \<Rightarrow> Throw e
           | Inr after \<Rightarrow>
               if after then Return (Bool True) else Return (Str ''must be after start'')))"

definition end_field :: FormField where
  "end_field =
     FormField ''end'' ''number'' None (Some (no_rules\<lparr>rule_custom := Some cross_field_rule\<rparr>))
       None [] []"

text \<open>The uniqueness rule of the README,
  \<^verbatim>\<open>async (value) => isUnique || "Username is already taken"\<close>, for a name that is
  taken.\<close>

definition username_field :: FormField where
  "username_field =
     FormField ''username'' ''text'' None
       (Some (no_rules\<lparr>rule_custom := Some (\<lambda>rt args. Return (Str ''Username is already taken''))\<rparr>))
       None [] []"

text \<open>A remote check that fails with an exception, next to a required field.\<close>

definition remote_field :: FormField where
  "remote_field =
     FormField ''email'' ''text'' None
       (Some (no_rules\<lparr>rule_custom := Some (\<lambda>rt args. Throw (Thrown ''network error''))\<rparr>))
       None [] []"

definition name_field :: FormField where
  "name_field = FormField ''name'' ''text'' (Some (ReqBool True)) None None [] []"

text \<open>A number field with a lower bound, a field-level message for another key, and
  a form-level message for the bound.\<close>

definition age_field :: FormField where
  "age_field =
     FormField ''age'' ''number'' None (Some (no_rules\<lparr>rule_min := Some 18\<rparr>))
       (Some (map_of [(''required'', ''Please tell us your age'')])) [] []"

definition form_messages :: ValidationMessages where
  "form_messages = map_of [(''min'', ''You are too young''), (''custom'', ''Please check this value'')]"

text \<open>The field \<open>budget\<close> of the package's advanced example
  (\<open>AdvancedFeaturesDemo\<close>): a number field whose \<open>validation.required\<close> is a
  function of the form data, \<^verbatim>\<open>(formData) => duration > 30\<close> with the duration read
  from \<open>formData.projectDuration\<close>. The function here is the one that the example's
  function is on every form data with a project of at most 30 days: it answers
  \<open>false\<close>.\<close>

definition never_required :: js_fun where
  "never_required rt formValues = Return (Bool False)"

definition budget_field :: FormField where
  "budget_field =
     FormField ''budget'' ''number'' None
       (Some (no_rules\<lparr>rule_required := Some (ReqFun never_required)\<rparr>))
       None [] []"





text \<open>A form with a required name and, inside a group, an age of at least 18.\<close>

definition adult_field :: FormField where
  "adult_field =
     FormField ''age'' ''number'' None (Some (no_rules\<lparr>rule_min := Some 18\<rparr>)) None [] []"

definition signup_form :: FormSchema where
  "signup_form =
     \<lparr>schema_fields = [name_field, FormField [] ''group'' None None None [adult_field] []]\<rparr>"







subsection \<open>An excerpt of the standard runtime\<close>

text \<open>
  The members of the built-in prototypes by name. A member is a function, named after
  its place (\<open>Number.prototype.toFixed\<close>); \<open>constructor\<close> is the constructor
  function and \<open>__proto__\<close> the prototype object. Every kind of value inherits the
  members of \<open>Object.prototype\<close> after those of its own prototype.
\<close>

definition object_prototype :: "string list" where
  "object_prototype =
     [''constructor'', ''__defineGetter__'', ''__defineSetter__'', ''hasOwnProperty'',
      ''__lookupGetter__'', ''__lookupSetter__'', ''isPrototypeOf'', ''propertyIsEnumerable'',
      ''toString'', ''valueOf'', ''__proto__'', ''toLocaleString'']"

definition number_prototype :: "string list" where
  "number_prototype =
     [''constructor'', ''toExponential'', ''toFixed'', ''toLocaleString'', ''toPrecision'',
      ''toString'', ''valueOf'']"

definition boolean_prototype :: "string list" where
  "boolean_prototype = [''constructor'', ''toString'', ''valueOf'']"

definition string_prototype :: "string list" where
  "string_prototype =
     [''constructor'', ''at'', ''charAt'', ''charCodeAt'', ''codePointAt'', ''concat'',
      ''endsWith'', ''includes'', ''indexOf'', ''lastIndexOf'', ''localeCompare'', ''match'',
      ''matchAll'', ''normalize'', ''padEnd'', ''padStart'', ''repeat'', ''replace'',
      ''replaceAll'', ''search'', ''slice'', ''split'', ''startsWith'', ''substr'',
      ''substring'', ''toLocaleLowerCase'', ''toLocaleUpperCase'', ''toLowerCase'',
      ''toString'', ''toUpperCase'', ''trim'', ''trimEnd'', ''trimStart'', ''valueOf'']"

definition array_prototype :: "string list" where
  "array_prototype =
     [''constructor'', ''at'', ''concat'', ''copyWithin'', ''entries'', ''every'', ''fill'',
      ''filter'', ''find'', ''findIndex'', ''findLast'', ''findLastIndex'', ''flat'',
      ''flatMap'', ''forEach'', ''includes'', ''indexOf'', ''join'', ''keys'', ''lastIndexOf'',
      ''map'', ''pop'', ''push'', ''reduce'', ''reduceRight'', ''reverse'', ''shift'', ''slice'',
      ''some'', ''sort'', ''splice'', ''toLocaleString'', ''toString'', ''unshift'',
      ''values'']"

definition member_of :: "string \<Rightarrow> string list \<Rightarrow> string \<Rightarrow> jsval option" where
  "member_of owner names key =
     (if key \<in> set names then
        Some (if key = ''constructor'' then Fn owner else Fn (owner @ ''.prototype.'' @ key))
      else if key = ''__proto__'' then Some (Host (owner @ ''.prototype''))
      else if key \<in> set object_prototype then Some (Fn (''Object.prototype.'' @ key))
      else None)"

text \<open>
  The runtime of the examples, where every function is a built-in one. It has the
  members above; the property \<open>name\<close> of a function, and its accessors
  \<open>caller\<close> and \<open>arguments\<close>, which throw. The examples consult nothing else,
  and the rest stands for the runtime on few inputs only: the other properties of
  functions and host objects read as \<open>undefined\<close>; \<open>Number(s)\<close> is given for
  the strings of decimal digits and \<open>String(n)\<close> for the integers below
  \<open>10\<^sup>2\<^sup>1\<close>; \<open>String(v)\<close> and \<open>Number(v)\<close> are those of a plain
  object without methods of its own; and no value has a method to call.
\<close>

definition standard_runtime :: js_runtime where
  "standard_runtime =
     \<lparr>object_member = member_of ''Object'' object_prototype,
      array_member = member_of ''Array'' array_prototype,
      string_member = member_of ''String'' string_prototype,
      number_member = member_of ''Number'' number_prototype,
      boolean_member = member_of ''Boolean'' boolean_prototype,
      host_get = (\<lambda>v key. case v of
                     Fn f \<Rightarrow>
                       if key = ''name'' then Inr (Str (last (split_dot f)))
                       else if key = ''caller'' \<or> key = ''arguments'' then Inl TypeError
                       else Inr Undefined
                   | _ \<Rightarrow> Inr Undefined),
      host_has = (\<lambda>v key. case v of
                     Fn f \<Rightarrow> key \<in> {''name'', ''length'', ''caller'', ''arguments''}
                   | _ \<Rightarrow> False),
      string_to_number = (\<lambda>s. case parse_digits s of Some n \<Rightarrow> Num (int n) | None \<Rightarrow> NaN),
      number_to_string = (\<lambda>n. if n < 0 then ''-'' @ decimal (nat (- n)) else decimal (nat n)),
      object_to_string = (\<lambda>v. Inr ''[object Object]''),
      object_to_number = (\<lambda>v. Inr NaN),
      invoke = (\<lambda>v name args. Inl TypeError)\<rparr>"



section \<open>Properties of the conditional logic\<close>

subsection \<open>The path resolver\<close>

lemma split_dot_nonempty: "split_dot s \<noteq> []"
  by (induction s) (auto split: list.splits)

lemma split_dot_append: "split_dot (p @ CHR ''.'' # q) = split_dot p @ split_dot q"
  by (induction p) (auto split: list.splits simp: split_dot_nonempty)

lemma split_dot_no_dot: "CHR ''.'' \<notin> set k \<Longrightarrow> split_dot k = [k]"
  by (induction k) auto

lemma get_prop_data: "truthy v \<Longrightarrow> \<not> is_host v \<Longrightarrow> get_prop rt v key = Inr (data_prop rt v key)"
  by (cases v) auto

lemma get_prop_host: "is_host v \<Longrightarrow> get_prop rt v key = host_get rt v key"
  by (cases v) auto

lemma nested_step_falsy: "\<not> truthy cur \<Longrightarrow> nested_step rt cur key = Inr Undefined"
  by (simp add: nested_step_def)

lemma nested_step_truthy: "truthy cur \<Longrightarrow> nested_step rt cur key = get_prop rt cur key"
  by (auto simp: nested_step_def split: sum.splits)

lemma nested_step_throws:
  assumes "nested_step rt cur key = Inl e"
  shows "is_host cur \<and> host_get rt cur key = Inl e"
proof -
  have t: "truthy cur"
    using assms nested_step_falsy [of cur rt key] by auto
  then have g: "get_prop rt cur key = Inl e"
    using assms by (simp add: nested_step_truthy)
  then have "is_host cur"
    using t get_prop_data [of cur rt key] by auto
  then show ?thesis
    using g by (simp add: get_prop_host)
qed

lemma reduce_nested_throws:
  "reduce_js (nested_step rt) ks cur = Inl e \<Longrightarrow> \<exists>h key. is_host h \<and> host_get rt h key = Inl e"
proof (induction ks arbitrary: cur)
  case Nil
  then show ?case by simp
next
  case (Cons k ks)
  show ?case
  proof (cases "nested_step rt cur k")
    case (Inl e')
    then have "e' = e"
      using Cons.prems by simp
    then show ?thesis
      using nested_step_throws [of rt cur k e] Inl by blast
  next
    case (Inr v)
    then show ?thesis
      using Cons.prems Cons.IH [of v] by simp
  qed
qed

lemma inherited_none: "no_inherited rt key \<Longrightarrow> inherited rt v key = None"
  by (cases v) (auto simp: no_inherited_def)

lemma own_prop_pure: "pure_data v \<Longrightarrow> own_prop v key = Some x \<Longrightarrow> pure_data x"
proof (cases v)
  case (Obj r kvs)
  assume "pure_data v" and "own_prop v key = Some x"
  then have "list_all (\<lambda>kv. pure_data (snd kv)) kvs" and "(key, x) \<in> set kvs"
    using Obj by (auto dest: map_of_SomeD)
  then show ?thesis
    by (auto simp: list_all_iff)
next
  case (Arr r xs)
  assume "pure_data v" and "own_prop v key = Some x"
  then show ?thesis
    using Arr by (auto simp: list_all_length split: if_splits option.splits)
next
  case (Str s)
  assume "own_prop v key = Some x"
  then show ?thesis
    using Str by (auto split: if_splits option.splits)
qed auto

lemma nested_step_pure:
  assumes "pure_data cur" and "no_inherited rt key"
  shows "\<exists>x. nested_step rt cur key = Inr x \<and> pure_data x"
proof (cases "truthy cur")
  case False
  then show ?thesis
    by (simp add: nested_step_falsy)
next
  case True
  have data: "\<not> is_host cur"
    using assms(1) by (cases cur) auto
  have step: "nested_step rt cur key = Inr (data_prop rt cur key)"
    using True data by (simp add: nested_step_truthy get_prop_data)
  have "pure_data (data_prop rt cur key)"
    using assms own_prop_pure [of cur key] inherited_none [of rt key cur]
    by (auto simp: data_prop_def split: option.splits)
  then show ?thesis
    using step by simp
qed

lemma reduce_nested_pure:
  "pure_data cur \<Longrightarrow> \<forall>key \<in> set ks. no_inherited rt key \<Longrightarrow>
     \<exists>v. reduce_js (nested_step rt) ks cur = Inr v"
proof (induction ks arbitrary: cur)
  case Nil
  then show ?case by simp
next
  case (Cons k ks)
  obtain x where "nested_step rt cur k = Inr x" and "pure_data x"
    using nested_step_pure [of cur rt k] Cons.prems by auto
  then show ?case
    using Cons.IH [of x] Cons.prems by simp
qed

lemma reduce_js_append:
  "reduce_js f (xs @ ys) a =
     (case reduce_js f xs a of Inl e \<Rightarrow> Inl e | Inr b \<Rightarrow> reduce_js f ys b)"
  by (induction xs arbitrary: a) (auto split: sum.splits)

lemma reduce_nested_undefined: "reduce_js (nested_step rt) ks Undefined = Inr Undefined"
  by (induction ks) (auto simp: nested_step_def)

lemma nested_step_undefined:
  "\<not> truthy cur \<or> get_prop rt cur key = Inr Undefined \<Longrightarrow> nested_step rt cur key = Inr Undefined"
  by (auto simp: nested_step_def)

lemma getNestedValue_extend:
  assumes "getNestedValue rt obj p = Inr cur"
    and "\<not> truthy cur \<or> get_prop rt cur k = Inr Undefined"
    and "CHR ''.'' \<notin> set k"
  shows "getNestedValue rt obj (p @ ''.'' @ k) = Inr Undefined"
    and "getNestedValue rt obj (p @ ''.'' @ k @ ''.'' @ q) = Inr Undefined"
proof -
  have p: "reduce_js (nested_step rt) (split_dot p) obj = Inr cur"
    using assms(1) by (simp add: getNestedValue_def)
  have k: "split_dot k = [k]"
    using assms(3) by (rule split_dot_no_dot)
  have step: "nested_step rt cur k = Inr Undefined"
    using assms(2) by (rule nested_step_undefined)
  show "getNestedValue rt obj (p @ ''.'' @ k) = Inr Undefined"
    by (simp add: getNestedValue_def split_dot_append reduce_js_append p k step)
  have "split_dot (k @ CHR ''.'' # q) = [k] @ split_dot q"
    by (simp only: split_dot_append k)
  then show "getNestedValue rt obj (p @ ''.'' @ k @ ''.'' @ q) = Inr Undefined"
    by (simp add: getNestedValue_def split_dot_append reduce_js_append p step
        reduce_nested_undefined)
qed

lemma not_index_b: "array_index ''b'' = None"
  by (simp add: array_index_def parse_digits_def digit_val_def)

lemma scalar_b_undefined:
  assumes "no_inherited rt ''b''" and "\<not> is_host a" and "\<forall>r' kvs'. a \<noteq> Obj r' kvs'"
  shows "nested_step rt a ''b'' = Inr Undefined"
proof (cases "truthy a")
  case False
  then show ?thesis
    by (simp add: nested_step_falsy)
next
  case True
  have "own_prop a ''b'' = None"
    using assms(3) not_index_b by (cases a) auto
  then have "data_prop rt a ''b'' = Undefined"
    using inherited_none [OF assms(1), of a] by (simp add: data_prop_def)
  then show ?thesis
    using True assms(2) by (simp add: nested_step_truthy get_prop_data)
qed

text \<open>
  Claim C8, as the code has it. \<open>getNestedValue\<close> reads every segment with
  \<open>current[key]\<close>, which also finds what the current value inherits through its
  prototype chain. So:
  \<^item> it throws only what reading a property of a function or of a host object throws
    (a path reaches such a value through an inherited member like \<open>constructor\<close>);
  \<^item> on plain data, with a path whose segments name nothing inherited, it returns;
  \<^item> once a prefix of the path has led to a falsy value, or to a value whose lookup of
    the next segment yields \<open>undefined\<close>, the result is \<open>undefined\<close>, whatever
    segments follow;
  \<^item> \<open>a.b.c\<close> resolves to \<open>undefined\<close> in a snapshot where \<open>a\<close> is absent, where
    \<open>a\<close> is present but not an object, and where \<open>a\<close> is an object without
    \<open>b\<close>, provided that \<open>a\<close> and \<open>b\<close> name nothing inherited.
\<close>

theorem getNestedValue_reads_inherited_members:
  "(getNestedValue rt obj path = Inl e \<longrightarrow> (\<exists>h key. is_host h \<and> host_get rt h key = Inl e))
   \<and> (pure_data obj \<and> (\<forall>key \<in> set (split_dot path). no_inherited rt key)
      \<longrightarrow> (\<exists>v. getNestedValue rt obj path = Inr v))
   \<and> (getNestedValue rt obj p = Inr cur
        \<and> (\<not> truthy cur \<or> get_prop rt cur k = Inr Undefined) \<and> CHR ''.'' \<notin> set k
      \<longrightarrow> getNestedValue rt obj (p @ ''.'' @ k) = Inr Undefined
          \<and> getNestedValue rt obj (p @ ''.'' @ k @ ''.'' @ q) = Inr Undefined)
   \<and> (object_member rt ''a'' = None \<and> no_inherited rt ''b''
        \<and> (map_of kvs ''a'' = None
            \<or> (\<exists>a. map_of kvs ''a'' = Some a \<and> \<not> is_host a \<and> (\<forall>r' kvs'. a \<noteq> Obj r' kvs'))
            \<or> (\<exists>r' kvs'. map_of kvs ''a'' = Some (Obj r' kvs') \<and> map_of kvs' ''b'' = None))
      \<longrightarrow> getNestedValue rt (Obj r kvs) ''a.b.c'' = Inr Undefined)"
proof (intro conjI impI)
  assume "getNestedValue rt obj path = Inl e"
  then show "\<exists>h key. is_host h \<and> host_get rt h key = Inl e"
    using reduce_nested_throws by (simp add: getNestedValue_def)
next
  assume "pure_data obj \<and> (\<forall>key \<in> set (split_dot path). no_inherited rt key)"
  then show "\<exists>v. getNestedValue rt obj path = Inr v"
    using reduce_nested_pure by (simp add: getNestedValue_def)
next
  assume h: "getNestedValue rt obj p = Inr cur
    \<and> (\<not> truthy cur \<or> get_prop rt cur k = Inr Undefined) \<and> CHR ''.'' \<notin> set k"
  show "getNestedValue rt obj (p @ ''.'' @ k) = Inr Undefined"
    using getNestedValue_extend(1) [of rt obj p cur k] h by blast
  show "getNestedValue rt obj (p @ ''.'' @ k @ ''.'' @ q) = Inr Undefined"
    using getNestedValue_extend(2) [of rt obj p cur k q] h by blast
next
  assume h: "object_member rt ''a'' = None \<and> no_inherited rt ''b''
    \<and> (map_of kvs ''a'' = None
        \<or> (\<exists>a. map_of kvs ''a'' = Some a \<and> \<not> is_host a \<and> (\<forall>r' kvs'. a \<noteq> Obj r' kvs'))
        \<or> (\<exists>r' kvs'. map_of kvs ''a'' = Some (Obj r' kvs') \<and> map_of kvs' ''b'' = None))"
  then have a: "object_member rt ''a'' = None" and b: "no_inherited rt ''b''"
    by simp_all
  have path: "split_dot ''a.b.c'' = [''a'', ''b'', ''c'']"
    by simp
  have cases: "map_of kvs ''a'' = None
    \<or> (\<exists>a. map_of kvs ''a'' = Some a \<and> \<not> is_host a \<and> (\<forall>r' kvs'. a \<noteq> Obj r' kvs'))
    \<or> (\<exists>r' kvs'. map_of kvs ''a'' = Some (Obj r' kvs') \<and> map_of kvs' ''b'' = None)"
    using h by simp
  show "getNestedValue rt (Obj r kvs) ''a.b.c'' = Inr Undefined"
    using cases
  proof (elim disjE exE conjE)
    assume "map_of kvs ''a'' = None"
    then have "nested_step rt (Obj r kvs) ''a'' = Inr Undefined"
      using a by (simp add: nested_step_def data_prop_def)
    then show ?thesis
      by (simp add: getNestedValue_def path nested_step_falsy)
  next
    fix v
    assume present: "map_of kvs ''a'' = Some v" and data: "\<not> is_host v"
      and scalar: "\<forall>r' kvs'. v \<noteq> Obj r' kvs'"
    have first: "nested_step rt (Obj r kvs) ''a'' = Inr v"
      using present by (simp add: nested_step_def data_prop_def)
    have second: "nested_step rt v ''b'' = Inr Undefined"
      using scalar_b_undefined [OF b data scalar] .
    show ?thesis
      by (simp add: getNestedValue_def path first second nested_step_falsy)
  next
    fix r' kvs'
    assume present: "map_of kvs ''a'' = Some (Obj r' kvs')" and absent: "map_of kvs' ''b'' = None"
    have first: "nested_step rt (Obj r kvs) ''a'' = Inr (Obj r' kvs')"
      using present by (simp add: nested_step_def data_prop_def)
    have "inherited rt (Obj r' kvs') ''b'' = None"
      using b by (rule inherited_none)
    then have second: "nested_step rt (Obj r' kvs') ''b'' = Inr Undefined"
      using absent by (simp add: nested_step_def data_prop_def)
    show ?thesis
      by (simp add: getNestedValue_def path first second nested_step_falsy)
  qed
qed

lemma standard_members:
  "object_member standard_runtime ''a'' = None"
  "no_inherited standard_runtime ''a''"
  "no_inherited standard_runtime ''b''"
  "no_inherited standard_runtime ''x''"
  by (simp_all add: no_inherited_def standard_runtime_def member_of_def object_prototype_def
      array_prototype_def string_prototype_def number_prototype_def boolean_prototype_def)

lemma standard_constructor:
  "object_member standard_runtime ''constructor'' = Some (Fn ''Object'')"
  "number_member standard_runtime ''constructor'' = Some (Fn ''Number'')"
  "host_get standard_runtime (Fn f) ''caller'' = Inl TypeError"
  "host_get standard_runtime (Fn ''Number'') ''name'' = Inr (Str ''Number'')"
  by (simp_all add: standard_runtime_def member_of_def object_prototype_def
      number_prototype_def)

theorem getNestedValue_reads_inherited_members_witness:
  "(\<exists>h key. is_host h \<and> host_get standard_runtime h key = Inl TypeError)
   \<and> (\<exists>v. getNestedValue standard_runtime (Obj 0 [(''a'', Num 5)]) ''a.b'' = Inr v)
   \<and> getNestedValue standard_runtime (Obj 0 [(''a'', Num 5)]) ''a.b'' = Inr Undefined
   \<and> getNestedValue standard_runtime (Obj 0 [(''a'', Num 5)]) ''a.b.c'' = Inr Undefined
   \<and> getNestedValue standard_runtime (Obj 0 [(''a'', Obj 1 [(''x'', Num 1)])]) ''a.b.c''
       = Inr Undefined"
proof -
  let ?rt = standard_runtime
  have throws: "getNestedValue ?rt (Obj 0 []) ''constructor.caller'' = Inl TypeError"
    by (simp add: getNestedValue_def nested_step_def data_prop_def standard_constructor)
  have pure: "pure_data (Obj 0 [(''a'', Num 5)])
    \<and> (\<forall>key \<in> set (split_dot ''a.b''). no_inherited ?rt key)"
    by (simp add: standard_members)
  have p: "getNestedValue ?rt (Obj 0 [(''a'', Num 5)]) ''a'' = Inr (Num 5)"
    by (simp add: getNestedValue_def nested_step_def data_prop_def)
  have a: "\<not> truthy (Num 5) \<or> get_prop ?rt (Num 5) ''b'' = Inr Undefined"
    using standard_members(3) by (simp add: data_prop_def no_inherited_def)
  have k: "CHR ''.'' \<notin> set ''b''"
    by simp
  have m: "map_of [(''a'', Obj 1 [(''x'', Num 1)])] ''a'' = Some (Obj 1 [(''x'', Num 1)])
    \<and> map_of [(''x'', Num (1::int))] ''b'' = None"
    by simp
  show ?thesis
    using getNestedValue_reads_inherited_members
      [of ?rt "Obj 0 []" "''constructor.caller''" TypeError "''a''" "Num 5" "''b''" "''c''"
          "[(''a'', Obj 1 [(''x'', Num 1)])]" 0]
      getNestedValue_reads_inherited_members
      [of ?rt "Obj 0 [(''a'', Num 5)]" "''a.b''" TypeError "''a''" "Num 5" "''b''" "''c''"
          "[(''a'', Obj 1 [(''x'', Num 1)])]" 0]
      throws pure p a k m standard_members
    by simp
qed

text \<open>
  Claim C8 as stated fails where a segment names an inherited member. In the snapshot
  \<open>{a: 1}\<close> the value of \<open>a\<close> is a number, not a traversable container, and yet
  \<open>a.constructor\<close> resolves to the function \<open>Number\<close> and \<open>a.constructor.name\<close>
  to the string \<open>Number\<close>; and in the snapshot \<open>{}\<close> the path
  \<open>constructor.caller\<close> makes the resolver throw a \<open>TypeError\<close>.
\<close>

theorem getNestedValue_finds_constructor:
  "getNestedValue standard_runtime (Obj 0 [(''a'', Num 1)]) ''a.constructor'' = Inr (Fn ''Number'')
   \<and> getNestedValue standard_runtime (Obj 0 [(''a'', Num 1)]) ''a.constructor.name''
       = Inr (Str ''Number'')
   \<and> getNestedValue standard_runtime (Obj 0 []) ''constructor.caller'' = Inl TypeError"
  by (simp add: getNestedValue_def nested_step_def data_prop_def standard_constructor
      array_index_def parse_digits_def digit_val_def)

subsection \<open>Emptiness\<close>

lemma strict_eq_Null [simp]: "strict_eq v Null = (v = Null)"
  by (cases v) auto

lemma strict_eq_Undefined [simp]: "strict_eq v Undefined = (v = Undefined)"
  by (cases v) auto

lemma strict_eq_Str [simp]: "strict_eq v (Str s) = (v = Str s)"
  by (cases v) auto

lemma is_not_empty_negation: "is_not_empty v = (\<not> is_empty v)"
  by (cases v) (auto simp: is_empty_def is_not_empty_def)

lemma evaluate_emptiness:
  "evaluateCondition rt (c\<lparr>cond_operator := ''isEmpty''\<rparr>) formValues =
     (case getNestedValue rt formValues (cond_field c) of
        Inl e \<Rightarrow> Inl e | Inr fieldValue \<Rightarrow> Inr (is_empty fieldValue))"
  "evaluateCondition rt (c\<lparr>cond_operator := ''isNotEmpty''\<rparr>) formValues =
     (case getNestedValue rt formValues (cond_field c) of
        Inl e \<Rightarrow> Inl e | Inr fieldValue \<Rightarrow> Inr (\<not> is_empty fieldValue))"
  by (simp_all add: evaluateCondition_def is_not_empty_negation split: sum.splits)

text \<open>
  Claim C6, as the code has it. For every condition (so for every field path) and
  every values snapshot: when the path resolves to a value, the condition evaluated with
  operator \<open>isEmpty\<close> yields a boolean, and the same condition with operator
  \<open>isNotEmpty\<close> yields its negation; the value found at the path is arbitrary, and
  \<open>0\<close>, \<open>false\<close>, the empty array, the empty string, \<open>null\<close> and \<open>undefined\<close>
  are among the cases. When the resolver throws, both evaluations throw the same
  exception. On plain data, with a path whose segments name nothing inherited, the path
  resolves, so that the two evaluations return a boolean and its negation.
\<close>

theorem isEmpty_isNotEmpty_negation_when_resolved:
  "(getNestedValue rt formValues (cond_field c) = Inr fieldValue
      \<longrightarrow> evaluateCondition rt (c\<lparr>cond_operator := ''isEmpty''\<rparr>) formValues
            = Inr (is_empty fieldValue)
          \<and> evaluateCondition rt (c\<lparr>cond_operator := ''isNotEmpty''\<rparr>) formValues
            = Inr (\<not> is_empty fieldValue))
   \<and> (getNestedValue rt formValues (cond_field c) = Inl e
      \<longrightarrow> evaluateCondition rt (c\<lparr>cond_operator := ''isEmpty''\<rparr>) formValues = Inl e
          \<and> evaluateCondition rt (c\<lparr>cond_operator := ''isNotEmpty''\<rparr>) formValues = Inl e)
   \<and> (pure_data formValues \<and> (\<forall>key \<in> set (split_dot (cond_field c)). no_inherited rt key)
      \<longrightarrow> (\<exists>b. evaluateCondition rt (c\<lparr>cond_operator := ''isEmpty''\<rparr>) formValues = Inr b
              \<and> evaluateCondition rt (c\<lparr>cond_operator := ''isNotEmpty''\<rparr>) formValues
                = Inr (\<not> b)))"
proof (intro conjI impI)
  assume "pure_data formValues \<and> (\<forall>key \<in> set (split_dot (cond_field c)). no_inherited rt key)"
  then obtain v where "getNestedValue rt formValues (cond_field c) = Inr v"
    using reduce_nested_pure [of formValues "split_dot (cond_field c)" rt]
    by (auto simp: getNestedValue_def)
  then show "\<exists>b. evaluateCondition rt (c\<lparr>cond_operator := ''isEmpty''\<rparr>) formValues = Inr b
      \<and> evaluateCondition rt (c\<lparr>cond_operator := ''isNotEmpty''\<rparr>) formValues = Inr (\<not> b)"
    by (simp add: evaluate_emptiness)
qed (simp_all add: evaluate_emptiness)

theorem isEmpty_isNotEmpty_negation_when_resolved_witness:
  "evaluateCondition standard_runtime
     \<lparr>cond_field = ''x'', cond_operator = ''isEmpty'', cond_value = Undefined, cond_values = None\<rparr>
     (Obj 0 [(''x'', Num 0)]) = Inr False
   \<and> evaluateCondition standard_runtime
     \<lparr>cond_field = ''x'', cond_operator = ''isNotEmpty'', cond_value = Undefined, cond_values = None\<rparr>
     (Obj 0 [(''x'', Num 0)]) = Inr True
   \<and> evaluateCondition standard_runtime
     \<lparr>cond_field = ''constructor.caller'', cond_operator = ''isNotEmpty'', cond_value = Undefined,
      cond_values = None\<rparr> (Obj 0 []) = Inl TypeError"
proof -
  let ?rt = standard_runtime
  let ?c = "\<lparr>cond_field = ''x'', cond_operator = ''equals'', cond_value = Undefined,
    cond_values = None\<rparr>"
  let ?d = "\<lparr>cond_field = ''constructor.caller'', cond_operator = ''equals'',
    cond_value = Undefined, cond_values = None\<rparr>"
  have resolved: "getNestedValue ?rt (Obj 0 [(''x'', Num 0)]) (cond_field ?c) = Inr (Num 0)"
    by (simp add: getNestedValue_def nested_step_def data_prop_def)
  have throws: "getNestedValue ?rt (Obj 0 []) (cond_field ?d) = Inl TypeError"
    by (simp add: getNestedValue_def nested_step_def data_prop_def standard_constructor)
  have pure: "pure_data (Obj 0 [(''x'', Num 0)])
    \<and> (\<forall>key \<in> set (split_dot (cond_field ?c)). no_inherited ?rt key)"
    by (simp add: standard_members)
  show ?thesis
    using isEmpty_isNotEmpty_negation_when_resolved
        [of ?rt "Obj 0 [(''x'', Num 0)]" ?c "Num 0" TypeError]
      isEmpty_isNotEmpty_negation_when_resolved [of ?rt "Obj 0 []" ?d Undefined TypeError]
      resolved throws pure
    by (simp add: is_empty_def)
qed

text \<open>
  Claim C6 as stated fails for a field path on which the resolver throws: in the
  snapshot \<open>{}\<close> the path \<open>constructor.caller\<close> reaches the function \<open>Object\<close>
  and reads its accessor \<open>caller\<close>. Neither evaluation returns a boolean; both throw
  a \<open>TypeError\<close>.
\<close>

theorem isEmpty_throws_on_inherited_accessor:
  "evaluateCondition standard_runtime
     \<lparr>cond_field = ''constructor.caller'', cond_operator = ''isEmpty'', cond_value = Undefined,
      cond_values = None\<rparr> (Obj 0 []) = Inl TypeError
   \<and> evaluateCondition standard_runtime
     \<lparr>cond_field = ''constructor.caller'', cond_operator = ''isNotEmpty'', cond_value = Undefined,
      cond_values = None\<rparr> (Obj 0 []) = Inl TypeError"
  by (simp add: evaluateCondition_def getNestedValue_def nested_step_def data_prop_def
      standard_constructor)

subsection \<open>The combinators\<close>

text \<open>
  Claim C7. For every values snapshot \<open>v\<close>, \<open>evaluateComplexCondition({and: []}, v)\<close>
  is true and \<open>evaluateComplexCondition({or: []}, v)\<close> is false.
\<close>

theorem evaluateComplexCondition_empty:
  "evaluateComplexCondition rt \<lparr>c_and = Some [], c_or = None, c_not = None\<rparr> v = Inr True
   \<and> evaluateComplexCondition rt \<lparr>c_and = None, c_or = Some [], c_not = None\<rparr> v = Inr False"
  by (simp add: evaluateComplexCondition_def)

text \<open>
  Claim C10. A field whose \<open>visibleWhen\<close> is the empty mapping and that has no
  \<open>conditional\<close> is visible for every values snapshot: the simple-syntax evaluator
  answers true on the empty mapping.
\<close>

theorem shouldFieldBeVisible_empty_visibleWhen:
  "evaluateSimpleCondition rt [] formValues = Inr True
   \<and> shouldFieldBeVisible rt \<lparr>conditional = None, visibleWhen = Some []\<rparr> formValues = Inr True"
  by (simp add: shouldFieldBeVisible_def evaluateSimpleCondition_def)

section \<open>Properties of the validation\<close>

lemmas field_schema_defs =
  createFieldValidationSchema_def applyValidationRules_def string_rules_def number_rules_def
  array_rules_def base_schema_def new_schema_def add_test_def custom_test_def
  getValidationMessage_def message_at_def js_or_def messages_or_def
  DEFAULT_VALIDATION_MESSAGES_def validation_required_def yup_required_def
  string_required_test_def length_min_test_def length_max_test_def number_min_test_def
  number_max_test_def no_rules_def plain_field_def

lemmas run_defs =
  validate_abortEarly_def cast_value_def is_type_def leaf_events_def spec_events_def
  initial_events_def run_test_def absent_def format_message_def message_params_def
  length_of_def bind_js_def data_prop_def extra_key_panics_def

lemmas form_defs =
  validateFormData_def createFormValidationSchema_def validate_all_def collect_errors_def
  child_path_def

subsection \<open>The custom rule\<close>

text \<open>
  Claim C1, at its scenario. The rule
  \<^verbatim>\<open>(end, all) => end > all.start || "must be after start"\<close> called with the value
  and the form values answers as the claim says: the message for \<open>end = 5\<close>, \<open>true\<close>
  for \<open>end = 15\<close>, with \<open>all.start = 10\<close>. The compiled validator calls it with the
  value alone, so \<open>all\<close> is \<open>undefined\<close>, reading \<open>all.start\<close> throws, and the
  field is reported with the generic message \<open>Validation error\<close> for both values. In a
  whole-form validation of \<open>{start: 10, end: 5}\<close> the exception leaves the error map
  empty.
\<close>

theorem custom_called_with_value_only:
  "cross_field_rule rt [Num 5, Obj 0 [(''start'', Num 10)]] = Return (Str ''must be after start'')
   \<and> cross_field_rule rt [Num 15, Obj 0 [(''start'', Num 10)]] = Return (Bool True)
   \<and> validateFieldValue env ''end'' (Num 5) end_field None = Some ''Validation error''
   \<and> validateFieldValue env ''end'' (Num 15) end_field None = Some ''Validation error''
   \<and> validateFormData env (Obj 0 [(''start'', Num 10), (''end'', Num 5)])
         \<lparr>schema_fields = [plain_field ''start'' ''number'', end_field]\<rparr> None = Map.empty"
  by (simp add: cross_field_rule_def compare_numbers_def arg_def end_field_def
      validateFieldValue_def field_schema_defs run_defs form_defs)

text \<open>
  Claim C4, at the README's uniqueness rule. The predicate returns the string
  \<open>Username is already taken\<close>; the field is reported as failing, with the default
  \<open>custom\<close> message \<open>Invalid value\<close> and not with the returned string.
\<close>

theorem custom_string_result_discarded:
  "validateFieldValue env ''username'' (Str ''bob'') username_field None = Some ''Invalid value''"
  by (simp add: username_field_def validateFieldValue_def field_schema_defs run_defs)

subsection \<open>An exception in a custom rule\<close>

text \<open>
  Claim C2, at a form with a remote check that throws and a required field left empty.
  \<open>validateFormData\<close> does not propagate the exception, but it returns the empty
  error map: neither the failing check nor the missing required field is reported.
  \<open>validateFieldValue\<close> reports each of the two fields.
\<close>

theorem validateFormData_exception_empties_errors:
  "validateFormData env (Obj 0 [(''email'', Str ''a@b.c'')])
     \<lparr>schema_fields = [remote_field, name_field]\<rparr> None = Map.empty
   \<and> validateFieldValue env ''email'' (Str ''a@b.c'') remote_field None = Some ''Validation error''
   \<and> validateFieldValue env ''name'' Undefined name_field None = Some ''This field is required''"
  by (simp add: remote_field_def name_field_def validateFieldValue_def field_schema_defs
      run_defs form_defs)

subsection \<open>Message resolution\<close>

text \<open>
  Claim C9, at a number field with the rule \<open>min: 18\<close>, whose field-level messages
  have an entry for \<open>required\<close> only, in a form whose messages override \<open>min\<close>. The
  violation of \<open>min\<close> is reported with the built-in default for \<open>min\<close>, not with the
  form-level override; without the field-level messages object the override applies.
  The \<open>required\<close> rule of the same field does fall back to the form-level message per
  key.
\<close>

theorem field_messages_hide_form_messages:
  "validateFieldValue env ''age'' (Num 15) age_field (Some form_messages)
     = Some (interpolate env ''Must be at least ${min}''
               [(''path'', Str ''this''), (''value'', Num 15), (''originalValue'', Num 15),
                (''min'', Num 18)])
   \<and> validateFieldValue env ''age'' (Num 15) adult_field (Some form_messages)
     = Some ''You are too young''
   \<and> getValidationMessage ''min'' (field_validationMessages age_field) (Some form_messages)
     = ''You are too young''"
  by (simp add: age_field_def adult_field_def form_messages_def validateFieldValue_def
      field_schema_defs run_defs Let_def)

subsection \<open>Required-ness\<close>

text \<open>
  Claim C3, at the field \<open>budget\<close> of the package's advanced example, whose
  \<open>validation.required\<close> is a function of the form data. The function answers
  \<open>false\<close>, for every form data offered to it; the compiled validator never calls
  it, finds it truthy, and reports the empty value of the field as a required failure.
\<close>

theorem required_function_not_called:
  "validation_required budget_field = Some (ReqFun never_required)
   \<and> never_required rt [formData] = Return (Bool False)
   \<and> validateFieldValue env ''budget'' Undefined budget_field None
     = Some ''This field is required''"
  by (simp add: budget_field_def never_required_def validateFieldValue_def field_schema_defs
      run_defs)

subsection \<open>Whole-form validation reports every failing field\<close>





















lemma new_schema_kind [simp]: "s_kind (new_schema k) = k"
  by (simp add: new_schema_def)































end
